theory Spec2Isabelle
  imports Main
begin

section \<open>Python values, exceptions and conversation turns\<close>

text \<open>
  The values that flow through the retrieval engine of \<^verbatim>\<open>src/utils/qa_chain.py\<close> and the
  query processing of \<^verbatim>\<open>src/app.py\<close>. A dict that nobody mutates after it is built (the result
  of \<^verbatim>\<open>qa_search\<close>, the input of the chain) is an insertion-ordered association list
  \<open>PDict\<close>; a dict that is shared and mutated (document metadata) lives in the object store
  and is referred to by \<open>PRef\<close>. Strings are byte strings: Python text is taken in UTF-8.
  A float is carried as it is, as mantissa and binary exponent; nothing computes with it.
\<close>

type_synonym addr = nat

datatype pyval =
    PNone
  | PStr string
  | PInt int
  | PFloat int int
  | PList "pyval list"
  | PDict "(string \<times> pyval) list"
  | PRef addr

type_synonym pydict = "(string \<times> pyval) list"

text \<open>
  A raised exception, by its class name and its \<^verbatim>\<open>str(e)\<close>. \<open>Exc\<close> is an instance of
  Python's \<^verbatim>\<open>Exception\<close>, which \<^verbatim>\<open>except Exception\<close> catches; \<open>BaseExc\<close> is one that
  is not (\<^verbatim>\<open>KeyboardInterrupt\<close>, \<^verbatim>\<open>SystemExit\<close>), which it lets through.
\<close>

datatype pyexc =
    Exc string string
  | BaseExc string string

text \<open>
  A message of the conversation: \<^verbatim>\<open>{"role": ..., "content": ...}\<close>, with the optional
  \<^verbatim>\<open>"metadata"\<close> key that \<^verbatim>\<open>app.py\<close> adds to assistant turns (the list of the
  metadata dicts of the sources, by reference).
\<close>

record turn =
  role :: string
  content :: string
  msg_metadata :: "addr list option"

section \<open>History rendering\<close>

text \<open>
  \<^verbatim>\<open>chat_history_to_str\<close> (qa_chain.py, lines 11-27). The argument is \<open>None\<close> when the caller
  omits the history. The loop appends one formatted line per message to the text.
\<close>

definition chat_history_to_str :: "turn list option \<Rightarrow> string" where
  "chat_history_to_str chat_history =
     (case chat_history of
        None \<Rightarrow> ''''
      | Some messages \<Rightarrow>
          (if messages \<noteq> [] \<and> length messages > 0
           then foldl (\<lambda>chat_history_text message.
                         chat_history_text
                         @ (if role message = ''user'' then ''User'' else ''Assistant'')
                         @ '': '' @ content message @ ''\<newline>\<newline>'')
                      '''' messages
           else ''''))"

text \<open>Python's \<^verbatim>\<open>xs[i:]\<close>: a negative start counts from the end, and is clamped at 0.\<close>

definition py_slice_from :: "'a list \<Rightarrow> int \<Rightarrow> 'a list" where
  "py_slice_from xs i =
     (if i < 0 then drop (nat (int (length xs) + i)) xs else drop (nat i) xs)"

text \<open>
  \<^verbatim>\<open>format_chat_history\<close> (app.py, lines 58-68; the same text is in utils/streamlit.py,
  lines 74-92). The result holds fresh dicts with the two keys \<^verbatim>\<open>role\<close> and
  \<^verbatim>\<open>content\<close> only.
\<close>

definition format_chat_history :: "turn list \<Rightarrow> int \<Rightarrow> turn list" where
  "format_chat_history messages max_messages =
     (let recent_messages =
            (if int (length messages) > max_messages
             then py_slice_from messages (- max_messages)
             else messages)
      in foldl (\<lambda>formatted_history msg.
                  formatted_history
                  @ [\<lparr>role = (if role msg = ''user'' then ''user'' else ''assistant''),
                      content = content msg,
                      msg_metadata = None\<rparr>])
               [] recent_messages)"

text \<open>The line that a turn contributes to the rendered block, and the role the caller keeps.\<close>

definition turn_line :: "turn \<Rightarrow> string" where
  "turn_line m =
     (if role m = ''user'' then ''User'' else ''Assistant'') @ '': '' @ content m
     @ ''\<newline>\<newline>''"

definition normalized_turn :: "turn \<Rightarrow> turn" where
  "normalized_turn m =
     \<lparr>role = (if role m = ''user'' then ''user'' else ''assistant''),
      content = content m, msg_metadata = None\<rparr>"

section \<open>Documents, the object store and the trace of external calls\<close>

text \<open>
  A retrieved document, as \<^verbatim>\<open>qa_search\<close> reads it: \<^verbatim>\<open>page_content\<close>, the reference to its
  metadata dict (\<open>None\<close> when the attribute is missing or holds \<^verbatim>\<open>None\<close>, which is what
  \<^verbatim>\<open>hasattr(doc, "metadata") and doc.metadata\<close> asks), and the \<^verbatim>\<open>similarity_score\<close>
  attribute (\<open>None\<close> when \<^verbatim>\<open>hasattr(doc, "similarity_score")\<close> is false).
\<close>

record document =
  page_content :: string
  metadata :: "addr option"
  similarity_score :: "pyval option"

text \<open>
  The formatted prompt: the literal text of the template and, in each placeholder, the value
  that the f-string formatting turns into text with \<^verbatim>\<open>str\<close>.
\<close>

datatype filled = Text string | Value pyval

type_synonym prompt = "filled list"

text \<open>What the program does to the outside, in order.\<close>

datatype event =
    Retrieve string nat
  | Generate prompt
  | StError string
  | StSuccess

text \<open>
  The mutable dict objects (\<open>objs\<close>, with the next free address) and the trace. Every
  address below \<open>next_addr\<close> is allocated.
\<close>

record world =
  objs :: "addr \<Rightarrow> pydict"
  next_addr :: addr
  trace :: "event list"

text \<open>
  The external collaborators. A vector store, through
  \<^verbatim>\<open>as_retriever(search_type="similarity", search_kwargs={"k": k}).invoke(query)\<close>, gives
  the documents or raises; the language model with the output parser, \<^verbatim>\<open>prompt | llm |
  StrOutputParser()\<close>, gives the answer text or raises.
\<close>

type_synonym vectorstore = "nat \<Rightarrow> string \<Rightarrow> pyexc + document list"

type_synonym llm = "prompt \<Rightarrow> pyexc + string"

definition retriever_invoke ::
  "vectorstore \<Rightarrow> nat \<Rightarrow> string \<Rightarrow> world \<Rightarrow> (pyexc + document list) \<times> world" where
  "retriever_invoke vs k q w = (vs k q, w\<lparr>trace := trace w @ [Retrieve q k]\<rparr>)"

text \<open>\<^verbatim>\<open>d[k] = v\<close> on an insertion-ordered dict, and \<^verbatim>\<open>del d[k]\<close>.\<close>

fun setitem :: "pydict \<Rightarrow> string \<Rightarrow> pyval \<Rightarrow> pydict" where
  "setitem [] k v = [(k, v)]"
| "setitem ((k', v') # d) k v =
     (if k' = k then (k, v) # d else (k', v') # setitem d k v)"

definition delitem :: "pydict \<Rightarrow> string \<Rightarrow> pydict" where
  "delitem d k = filter (\<lambda>kv. fst kv \<noteq> k) d"

text \<open>A new dict object with the given items (\<^verbatim>\<open>dict(d)\<close>, \<^verbatim>\<open>{}\<close>), and item assignment in place.\<close>

definition dict_alloc :: "pydict \<Rightarrow> world \<Rightarrow> addr \<times> world" where
  "dict_alloc d w =
     (next_addr w, w\<lparr>objs := (objs w)(next_addr w := d), next_addr := Suc (next_addr w)\<rparr>)"

definition dict_setitem :: "addr \<Rightarrow> string \<Rightarrow> pyval \<Rightarrow> world \<Rightarrow> world" where
  "dict_setitem a k v w = w\<lparr>objs := (objs w)(a := setitem (objs w a) k v)\<rparr>"

definition dict_delitem :: "addr \<Rightarrow> string \<Rightarrow> world \<Rightarrow> world" where
  "dict_delitem a k w = w\<lparr>objs := (objs w)(a := delitem (objs w a) k)\<rparr>"

section \<open>The retrieval engine: qa_search\<close>

text \<open>
  The prompt template (qa_chain.py, lines 50-69), cut at its three placeholders
  \<^verbatim>\<open>{chat_history}\<close>, \<^verbatim>\<open>{context}\<close> and \<^verbatim>\<open>{question}\<close>.
\<close>

definition template_intro :: string where
  "template_intro =
     ''You are a helpful assistant that provides accurate information based on ''
     @ ''the given context.\<newline>''
     @ ''    \<newline>''
     @ ''    Chat History:\<newline>''
     @ ''    ''"

definition template_before_context :: string where
  "template_before_context =
     ''\<newline>''
     @ ''\<newline>''
     @ ''    Context:\<newline>''
     @ ''    ''"

definition template_before_question :: string where
  "template_before_question =
     ''\<newline>''
     @ ''    \<newline>''
     @ ''    Question:\<newline>''
     @ ''    ''"

definition template_instruction :: string where
  "template_instruction =
     ''\<newline>''
     @ ''    \<newline>''
     @ ''    Answer the question based only on the provided context.\<newline>''
     @ ''    If the context is incomplete or vague, do your best to respond using ''
     @ ''the available information. \<newline>''
     @ ''    If the question appears incomplete (e.g. starts with ''
     @ [CHR 0xE2, CHR 0x80, CHR 0x9C]
     @ ''Can you find''
     @ [CHR 0xE2, CHR 0x80, CHR 0x9D]
     @ '', ''
     @ [CHR 0xE2, CHR 0x80, CHR 0x9C]
     @ ''Do you''
     @ [CHR 0xE2, CHR 0x80, CHR 0x9D]
     @ '', or cuts off unexpectedly), politely inform the user that the question ''
     @ ''seems incomplete and ask them to rephrase. \<newline>''
     @ ''    If the question refers to previous questions or responses, use the ''
     @ ''chat history to understand what the user is referring to.\<newline>''
     @ ''    If a full answer isn''
     @ [CHR 0xE2, CHR 0x80, CHR 0x99]
     @ ''t possible, clearly state what''
     @ [CHR 0xE2, CHR 0x80, CHR 0x99]
     @ ''s missing and politely ask the user for clarification. \<newline>''
     @ ''    Do not invent or assume facts that are not explicitly present in the ''
     @ ''context. \<newline>''
     @ ''    Keep responses brief and focused (no more than 300 words). \<newline>''
     @ ''    Avoid repetition and long paragraphs. \<newline>''
     @ ''    ''"

definition format_prompt :: "pyval \<Rightarrow> pyval \<Rightarrow> pyval \<Rightarrow> prompt" where
  "format_prompt chat_history context question =
     [Text template_intro, Value chat_history,
      Text template_before_context, Value context,
      Text template_before_question, Value question,
      Text template_instruction]"

text \<open>\<^verbatim>\<open>sep.join(xs)\<close>.\<close>

fun py_join :: "string \<Rightarrow> string list \<Rightarrow> string" where
  "py_join sep [] = ''''"
| "py_join sep [x] = x"
| "py_join sep (x # y # xs) = x @ sep @ py_join sep (y # xs)"

text \<open>
  \<^verbatim>\<open>create_stuff_documents_chain(llm, prompt)\<close> with its defaults: the documents under
  \<^verbatim>\<open>context\<close> are replaced by their \<^verbatim>\<open>page_content\<close> joined with a blank line, the
  other keys pass unchanged, the prompt is formatted and the model is called once.
\<close>

definition format_docs :: "document list \<Rightarrow> string" where
  "format_docs docs = py_join ''\<newline>\<newline>'' (map page_content docs)"

definition document_chain ::
  "llm \<Rightarrow> document list \<Rightarrow> pyval \<Rightarrow> pyval \<Rightarrow> world \<Rightarrow> (pyexc + string) \<times> world" where
  "document_chain llm context question chat_history w =
     (let prompt = format_prompt chat_history (PStr (format_docs context)) question
      in (llm prompt, w\<lparr>trace := trace w @ [Generate prompt]\<rparr>))"

text \<open>
  The input of the chain, \<^verbatim>\<open>{"question": query, "chat_history": ...}\<close> (lines 106-109),
  and the same dict as a value.
\<close>

record chain_input =
  ci_question :: string
  ci_chat_history :: string

definition chain_input_dict :: "chain_input \<Rightarrow> pyval" where
  "chain_input_dict x =
     PDict [(''question'', PStr (ci_question x)), (''chat_history'', PStr (ci_chat_history x))]"

text \<open>\<^verbatim>\<open>RunnablePassthrough()\<close> gives back the input it is invoked on.\<close>

definition RunnablePassthrough :: "chain_input \<Rightarrow> pyval" where
  "RunnablePassthrough x = chain_input_dict x"

text \<open>
  \<^verbatim>\<open>retrieval_chain.invoke(x)\<close> (lines 77-85): each of the three branches of the dict is
  invoked on the whole input \<^verbatim>\<open>x\<close>; the \<^verbatim>\<open>context\<close> branch retrieves for
  \<^verbatim>\<open>x["question"]\<close>, the branches \<^verbatim>\<open>question\<close> and \<^verbatim>\<open>chat_history\<close> are
  \<^verbatim>\<open>RunnablePassthrough()\<close>. The result goes through the document chain.
\<close>

definition retrieval_chain_invoke ::
  "llm \<Rightarrow> vectorstore \<Rightarrow> nat \<Rightarrow> chain_input \<Rightarrow> world \<Rightarrow> (pyexc + string) \<times> world" where
  "retrieval_chain_invoke llm vs k x w =
     (case retriever_invoke vs k (ci_question x) w of
        (Inl e, w1) \<Rightarrow> (Inl e, w1)
      | (Inr context, w1) \<Rightarrow>
          document_chain llm context (RunnablePassthrough x) (RunnablePassthrough x) w1)"

text \<open>
  The loop of lines 93-102: a new dict with the items of the document's metadata (an empty
  one when there is none), the similarity score added to the new dict when the document
  has one.
\<close>

fun extract_metadata :: "document list \<Rightarrow> addr list \<Rightarrow> world \<Rightarrow> addr list \<times> world" where
  "extract_metadata [] docs_metadata w = (docs_metadata, w)"
| "extract_metadata (doc # docs) docs_metadata w =
     (let (meta, w1) =
            dict_alloc (case metadata doc of
                          None \<Rightarrow> []
                        | Some a \<Rightarrow> (if objs w a \<noteq> [] then objs w a else [])) w;
          w2 = (case similarity_score doc of
                  None \<Rightarrow> w1
                | Some score \<Rightarrow> dict_setitem meta ''similarity_score'' score w1)
      in extract_metadata docs (docs_metadata @ [meta]) w2)"

text \<open>
  The dict that \<^verbatim>\<open>qa_search\<close> returns. The keys \<^verbatim>\<open>answer\<close>, \<^verbatim>\<open>document_metadata\<close> and
  \<^verbatim>\<open>raw_answer\<close> are in both dict literals; \<^verbatim>\<open>retrieved_count\<close> and \<^verbatim>\<open>error\<close> are
  \<open>None\<close> when the key is absent.
\<close>

record qa_result =
  answer :: string
  document_metadata :: "addr list"
  raw_answer :: string
  retrieved_count :: "int option"
  error :: "string option"

text \<open>The body of the \<^verbatim>\<open>try\<close> (lines 89-118).\<close>

definition qa_search_try ::
  "llm \<Rightarrow> string \<Rightarrow> vectorstore \<Rightarrow> turn list option \<Rightarrow> nat \<Rightarrow> world
     \<Rightarrow> (pyexc + qa_result) \<times> world" where
  "qa_search_try llm query vs history k w =
     (case retriever_invoke vs k query w of
        (Inl e, w1) \<Rightarrow> (Inl e, w1)
      | (Inr retrieved_docs, w1) \<Rightarrow>
          (let (docs_metadata, w2) = extract_metadata retrieved_docs [] w1
           in case retrieval_chain_invoke llm vs k
                     \<lparr>ci_question = query, ci_chat_history = chat_history_to_str history\<rparr> w2 of
                (Inl e, w3) \<Rightarrow> (Inl e, w3)
              | (Inr ans, w3) \<Rightarrow>
                  (Inr \<lparr>answer = ans, document_metadata = docs_metadata, raw_answer = ans,
                        retrieved_count = Some (int (length retrieved_docs)),
                        error = None\<rparr>, w3)))"

text \<open>
  \<^verbatim>\<open>qa_search\<close> (lines 30-127). The model \<^verbatim>\<open>llm\<close> is the module's global. With no
  vector store, \<^verbatim>\<open>vectorstore.as_retriever\<close> (line 44, before the \<^verbatim>\<open>try\<close>) raises
  AttributeError. \<^verbatim>\<open>except Exception\<close> turns an \<open>Exc\<close> into the error dict.
\<close>

definition qa_search ::
  "llm \<Rightarrow> string \<Rightarrow> vectorstore option \<Rightarrow> turn list option \<Rightarrow> nat \<Rightarrow> world
     \<Rightarrow> (pyexc + qa_result) \<times> world" where
  "qa_search llm query vectorstore history k w =
     (case vectorstore of
        None \<Rightarrow>
          (Inl (Exc ''AttributeError''
                  ([CHR 0x27] @ ''NoneType'' @ [CHR 0x27] @ '' object has no attribute ''
                   @ [CHR 0x27] @ ''as_retriever'' @ [CHR 0x27])), w)
      | Some vs \<Rightarrow>
          (case qa_search_try llm query vs history k w of
             (Inr result, w') \<Rightarrow> (Inr result, w')
           | (Inl (Exc cls e), w') \<Rightarrow>
               (let error_message = ''Error querying the model: '' @ e
                in (Inr \<lparr>answer = error_message, document_metadata = [],
                         raw_answer = error_message, retrieved_count = None,
                         error = Some e\<rparr>, w'))
           | (Inl (BaseExc cls e), w') \<Rightarrow> (Inl (BaseExc cls e), w')))"

section \<open>The vector store of the specification\<close>

text \<open>
  Modelled from the spec: \<^verbatim>\<open>utils/vectorstore.py\<close> and the store behind it are not among
  the sources. Section 4.2 of the specification gives
  \<^verbatim>\<open>search(index, query, k) -> list<Document>\<close>: "embed \<^verbatim>\<open>query\<close>, return the \<^verbatim>\<open>k\<close>
  nearest documents by the store's distance metric", best match first. The index is the
  list of its documents; the metric, with the embedding inside, is a parameter.
\<close>

definition spec_search ::
  "document list \<Rightarrow> (string \<Rightarrow> document \<Rightarrow> 'd::linorder) \<Rightarrow> string \<Rightarrow> nat \<Rightarrow> document list" where
  "spec_search index distance query k = take k (sort_key (distance query) index)"

definition spec_vectorstore ::
  "document list \<Rightarrow> (string \<Rightarrow> document \<Rightarrow> 'd::linorder) \<Rightarrow> vectorstore" where
  "spec_vectorstore index distance = (\<lambda>k query. Inr (spec_search index distance query k))"

section \<open>The query processing of app.py\<close>

text \<open>The keys of \<^verbatim>\<open>st.session_state\<close> (app.py, lines 47-55).\<close>

record session_state =
  messages :: "turn list"
  last_query :: string
  vectorstore :: "vectorstore option"
  should_process_query :: bool

text \<open>
  \<^verbatim>\<open>clear_chat\<close> (utils/streamlit.py, lines 64-71), the callback of the Clear button.
\<close>

definition clear_chat :: "session_state \<Rightarrow> session_state" where
  "clear_chat st = st\<lparr>messages := [], last_query := '''', should_process_query := False\<rparr>"

text \<open>\<^verbatim>\<open>set_query\<close> (app.py, lines 76-79).\<close>

definition set_query :: "string \<Rightarrow> session_state \<Rightarrow> session_state" where
  "set_query query st = st\<lparr>last_query := query, should_process_query := True\<rparr>"

text \<open>
  The body of the \<^verbatim>\<open>try\<close> of lines 172-202, for a session with its vector store \<open>vs\<close>.
  Line 177 reads \<^verbatim>\<open>result['retrieved_count']\<close>, a KeyError when the key is absent
  (\<^verbatim>\<open>str\<close> of a KeyError is the \<^verbatim>\<open>repr\<close> of the key). The calls of the logger and of the
  clock, and the loop of lines 180-186 that only writes to the log, leave the state as it
  is and are not modelled.
\<close>

definition process_query_try ::
  "llm \<Rightarrow> string \<Rightarrow> vectorstore \<Rightarrow> turn list \<Rightarrow> session_state \<Rightarrow> world
     \<Rightarrow> (pyexc + unit) \<times> session_state \<times> world" where
  "process_query_try llm query vs history st w =
     (case qa_search llm query (Some vs) (Some history) 6 w of
        (Inl e, w1) \<Rightarrow> (Inl e, st, w1)
      | (Inr result, w1) \<Rightarrow>
          (case retrieved_count result of
             None \<Rightarrow>
               (Inl (Exc ''KeyError'' ([CHR 0x27] @ ''retrieved_count'' @ [CHR 0x27])), st, w1)
           | Some n \<Rightarrow>
               (let st1 = st\<lparr>messages := messages st
                              @ [\<lparr>role = ''assistant'', content = answer result,
                                  msg_metadata = Some (document_metadata result)\<rparr>]\<rparr>;
                    st2 = (if length (messages st1) > 10
                           then st1\<lparr>messages := py_slice_from (messages st1) (- 10)\<rparr>
                           else st1)
                in (Inr (), st2, w1\<lparr>trace := trace w1 @ [StSuccess]\<rparr>))))"

text \<open>
  "Process query when flagged" (app.py, lines 151-211): one run of the script's query
  block. The first component is the exception that leaves the block, if any.
\<close>

definition process_query ::
  "llm \<Rightarrow> session_state \<Rightarrow> world \<Rightarrow> pyexc option \<times> session_state \<times> world" where
  "process_query llm st w =
     (if should_process_query st \<and> last_query st \<noteq> ''''
      then
        (let query = last_query st;
             st1 = st\<lparr>should_process_query := False\<rparr>;
             st2 = st1\<lparr>messages := messages st1
                          @ [\<lparr>role = ''user'', content = query, msg_metadata = None\<rparr>]\<rparr>;
             history = format_chat_history (butlast (messages st2)) 10
         in case vectorstore st2 of
              Some vs \<Rightarrow>
                (case process_query_try llm query vs history st2 w of
                   (Inr u, st3, w') \<Rightarrow> (None, st3, w')
                 | (Inl (Exc cls e), st3, w') \<Rightarrow>
                     (None, st3,
                      w'\<lparr>trace := trace w' @ [StError (''Error generating response: '' @ e)]\<rparr>)
                 | (Inl (BaseExc cls e), st3, w') \<Rightarrow> (Some (BaseExc cls e), st3, w'))
            | None \<Rightarrow>
                (None, st2,
                 w\<lparr>trace := trace w
                      @ [StError ''Knowledge base not initialized. Please try again.'']\<rparr>))
      else (None, st, w))"

text \<open>
  A sequence of questions, each set with \<^verbatim>\<open>set_query\<close> and processed by the next run
  of the script; the run stops at an exception that leaves the block.
\<close>

fun ask_all ::
  "llm \<Rightarrow> string list \<Rightarrow> session_state \<Rightarrow> world \<Rightarrow> pyexc option \<times> session_state \<times> world" where
  "ask_all llm [] st w = (None, st, w)"
| "ask_all llm (q # qs) st w =
     (case process_query llm (set_query q st) w of
        (None, st', w') \<Rightarrow> ask_all llm qs st' w'
      | (Some e, st', w') \<Rightarrow> (Some e, st', w'))"

text \<open>The session as lines 47-55 and 86-95 leave it at the first run.\<close>

definition initial_session :: "vectorstore option \<Rightarrow> session_state" where
  "initial_session vs =
     \<lparr>messages = [], last_query = '''', vectorstore = vs, should_process_query = False\<rparr>"

section \<open>The aggregator: age groups\<close>

text \<open>
  A row of the sales table, with the columns that the age-group documents and the date
  range read. \<^verbatim>\<open>Date\<close> is a day number (the formatting of dates is not modelled);
  \<^verbatim>\<open>Customer_Age\<close> is a whole number of years in the range of a 64-bit integer, which
  is how pandas reads such a column; fractional ages, and ages beyond that range (read as
  strings, on which \<^verbatim>\<open>pd.cut\<close> raises), are outside the model. The sales amounts and
  satisfaction scores are floating point and are left out, with the statistics computed
  from them.
\<close>

record csv_row =
  Date :: nat
  Customer_Age :: int

text \<open>The row after \<^verbatim>\<open>load_data\<close>: \<open>None\<close> is the missing category (NaN).\<close>

record sale = csv_row +
  Age_Group :: "string option"

text \<open>
  \<^verbatim>\<open>pd.cut(x, bins, labels)\<close> with its defaults: the bins are the intervals
  \<^verbatim>\<open>(bins[i], bins[i+1]]\<close>, open on the left and closed on the right, and a value in none
  of them has no category.
\<close>

fun cut :: "int \<Rightarrow> int list \<Rightarrow> string list \<Rightarrow> string option" where
  "cut x (lo # hi # bins) (label # labels) =
     (if lo < x \<and> x \<le> hi then Some label else cut x (hi # bins) labels)"
| "cut x bins labels = None"

text \<open>\<^verbatim>\<open>load_data\<close> (create_statistical_summary.py, lines 37-64), the age groups of it.\<close>

definition load_data :: "csv_row list \<Rightarrow> sale list" where
  "load_data df =
     map (\<lambda>r. \<lparr>Date = Date r, Customer_Age = Customer_Age r,
                Age_Group = cut (Customer_Age r) [17, 25, 35, 50, 70]
                              [''18-25'', ''26-35'', ''36-50'', ''51-70'']\<rparr>) df"

text \<open>
  \<^verbatim>\<open>Series.unique()\<close>: the distinct values in the order of their first appearance, the
  missing value among them when it occurs.
\<close>

fun unique :: "'a list \<Rightarrow> 'a list" where
  "unique [] = []"
| "unique (x # xs) = x # unique (filter (\<lambda>y. y \<noteq> x) xs)"

text \<open>
  The comparison \<^verbatim>\<open>sales_df["Age_Group"] == age_group\<close> of a row's category with a
  value of the loop: a missing value equals nothing, itself included.
\<close>

definition category_eq :: "string option \<Rightarrow> string option \<Rightarrow> bool" where
  "category_eq c age_group =
     (case age_group of None \<Rightarrow> False | Some label \<Rightarrow> c = Some label)"

text \<open>\<^verbatim>\<open>str(age_group)\<close>.\<close>

definition str_age_group :: "string option \<Rightarrow> string" where
  "str_age_group age_group = (case age_group of None \<Rightarrow> ''nan'' | Some label \<Rightarrow> label)"

text \<open>
  \<^verbatim>\<open>create_summary_dict\<close> (utils/statistical_summary.py, lines 11-37), the keys that do
  not hold floating-point statistics. On an empty chunk \<^verbatim>\<open>chunk["Date"].min()\<close> is
  \<^verbatim>\<open>NaT\<close>, and \<^verbatim>\<open>NaT.strftime\<close> raises ValueError.
\<close>

record summary =
  level :: string
  level_value :: string
  total_records :: nat
  date_range :: "nat \<times> nat"

definition create_summary_dict :: "sale list \<Rightarrow> string \<Rightarrow> string \<Rightarrow> pyexc + summary" where
  "create_summary_dict chunk level_name lvalue =
     (case chunk of
        [] \<Rightarrow> Inl (Exc ''ValueError'' ''NaTType does not support strftime'')
      | r # rs \<Rightarrow>
          Inr \<lparr>level = level_name, level_value = lvalue, total_records = length chunk,
               date_range = (fold min (map Date rs) (Date r), fold max (map Date rs) (Date r))\<rparr>)"

text \<open>A document of the aggregator: its id and, of its metadata, the type and the summary.\<close>

record agg_document =
  doc_id :: string
  doc_type :: string
  raw_data :: summary

text \<open>
  The loop "4. Demographic documents (by age group)" (create_statistical_summary.py,
  lines 186-223) over the values of \<^verbatim>\<open>sales_df["Age_Group"].unique()\<close>.
\<close>

fun age_group_documents ::
  "sale list \<Rightarrow> string option list \<Rightarrow> agg_document list \<Rightarrow> pyexc + agg_document list" where
  "age_group_documents sales_df [] documents = Inr documents"
| "age_group_documents sales_df (age_group # groups) documents =
     (let chunk = filter (\<lambda>r. category_eq (Age_Group r) age_group) sales_df
      in case create_summary_dict chunk ''age_group'' (str_age_group age_group) of
           Inl e \<Rightarrow> Inl e
         | Inr s \<Rightarrow>
             age_group_documents sales_df groups
               (documents
                @ [\<lparr>doc_id = ''age_group_'' @ str_age_group age_group,
                    doc_type = ''demographic'', raw_data = s\<rparr>]))"

text \<open>
  The main block from the age-group loop on (lines 186-258): the age-group documents, then
  the overall document over the whole table. The documents by period, product and region
  that lines 83-184 put in front are not modelled.
\<close>

definition main_documents :: "csv_row list \<Rightarrow> pyexc + agg_document list" where
  "main_documents csv =
     (let sales_df = load_data csv
      in case age_group_documents sales_df (unique (map Age_Group sales_df)) [] of
           Inl e \<Rightarrow> Inl e
         | Inr documents \<Rightarrow>
             (case create_summary_dict sales_df ''overall'' ''all_data'' of
                Inl e \<Rightarrow> Inl e
              | Inr overall_summary \<Rightarrow>
                  Inr (documents
                       @ [\<lparr>doc_id = ''overall_summary'', doc_type = ''overall'',
                           raw_data = overall_summary\<rparr>])))"

section \<open>Notions used to state the properties\<close>

text \<open>
  The prompt that the chain formats for a query, the documents retrieved for it and a
  history: what \<^verbatim>\<open>retrieval_chain_invoke\<close> hands to the model.
\<close>

definition chain_prompt :: "string \<Rightarrow> document list \<Rightarrow> turn list option \<Rightarrow> prompt" where
  "chain_prompt query docs history =
     format_prompt
       (PDict [(''question'', PStr query),
               (''chat_history'', PStr (chat_history_to_str history))])
       (PStr (format_docs docs))
       (PDict [(''question'', PStr query),
               (''chat_history'', PStr (chat_history_to_str history))])"

text \<open>The items that the loop of lines 93-102 puts in the new dict for a document.\<close>

definition copied_items :: "(addr \<Rightarrow> pydict) \<Rightarrow> document \<Rightarrow> pydict" where
  "copied_items h doc =
     (let items = (case metadata doc of None \<Rightarrow> [] | Some a \<Rightarrow> h a)
      in case similarity_score doc of
           None \<Rightarrow> items
         | Some score \<Rightarrow> setitem items ''similarity_score'' score)"

text \<open>
  What a value holds when the references in it are followed, to the given depth: the
  content of a dict with the content of the dicts nested in it.
\<close>

fun snapshot :: "nat \<Rightarrow> (addr \<Rightarrow> pydict) \<Rightarrow> pyval \<Rightarrow> pyval" where
  "snapshot 0 h v = v"
| "snapshot (Suc n) h (PRef a) = PDict (map (\<lambda>kv. (fst kv, snapshot n h (snd kv))) (h a))"
| "snapshot (Suc n) h (PList vs) = PList (map (snapshot n h) vs)"
| "snapshot (Suc n) h (PDict d) = PDict (map (\<lambda>kv. (fst kv, snapshot n h (snd kv))) d)"
| "snapshot (Suc n) h v = v"

text \<open>
  The caller's \<^verbatim>\<open>entry[k1][k2] = v\<close> on a returned metadata dict: an assignment in the
  dict that the entry holds under \<^verbatim>\<open>k1\<close>.
\<close>

definition nested_setitem :: "addr \<Rightarrow> string \<Rightarrow> string \<Rightarrow> pyval \<Rightarrow> world \<Rightarrow> world" where
  "nested_setitem entry k1 k2 v w =
     (case map_of (objs w entry) k1 of
        Some (PRef inner) \<Rightarrow> dict_setitem inner k2 v w
      | _ \<Rightarrow> w)"

section \<open>Concrete inputs\<close>

text \<open>
  An index of two documents. The first has the metadata of an overall summary, with its
  nested \<^verbatim>\<open>raw_data\<close> dict; the second has no metadata and carries a similarity score.
\<close>

definition ex_doc1 :: document where
  "ex_doc1 = \<lparr>page_content = ''Overall Sales Summary'', metadata = Some 0,
              similarity_score = None\<rparr>"

definition ex_doc2 :: document where
  "ex_doc2 = \<lparr>page_content = ''Sales Summary for East Region'', metadata = None,
              similarity_score = Some (PFloat 3 (- 2))\<rparr>"

definition ex_world :: world where
  "ex_world =
     \<lparr>objs = (\<lambda>a. if a = 0 then [(''type'', PStr ''overall''), (''raw_data'', PRef 1)]
                  else if a = 1 then [(''total_records'', PInt 3)]
                  else []),
      next_addr = 2,
      trace = []\<rparr>"

definition ex_distance :: "string \<Rightarrow> document \<Rightarrow> nat" where
  "ex_distance query doc = (if page_content doc = query then 0 else 1)"

definition ex_store :: vectorstore where
  "ex_store = spec_vectorstore [ex_doc1, ex_doc2] ex_distance"

definition ex_store_down :: vectorstore where
  "ex_store_down = (\<lambda>k query. Inl (Exc ''ConnectionError'' ''index unreachable''))"

definition ex_llm :: llm where
  "ex_llm = (\<lambda>p. Inr ''Total sales are 3.'')"

definition ex_llm_down :: llm where
  "ex_llm_down = (\<lambda>p. Inl (Exc ''APIError'' ''service unavailable''))"

section \<open>Facts about history rendering\<close>

lemma foldl_append_lines:
  "foldl (\<lambda>acc m. acc @ f m) acc0 ms = acc0 @ concat (map f ms)"
  by (induction ms arbitrary: acc0) simp_all

lemma foldl_append_singletons:
  "foldl (\<lambda>acc m. acc @ [f m]) acc0 ms = acc0 @ map f ms"
  by (induction ms arbitrary: acc0) simp_all

lemma chat_history_to_str_Some:
  "chat_history_to_str (Some ms) = concat (map turn_line ms)"
proof (cases ms)
  case Nil
  then show ?thesis by (simp add: chat_history_to_str_def)
next
  case (Cons m ms')
  have "foldl (\<lambda>t message. t @ turn_line message) '''' ms = '''' @ concat (map turn_line ms)"
    by (rule foldl_append_lines)
  then show ?thesis
    using Cons by (simp add: chat_history_to_str_def turn_line_def)
qed

lemma py_slice_from_last:
  "0 < n \<Longrightarrow> py_slice_from xs (- int n) = drop (length xs - n) xs"
  by (simp add: py_slice_from_def nat_diff_distrib' del: of_nat_diff)

lemma format_loop_map:
  "foldl (\<lambda>formatted_history msg.
            formatted_history
            @ [\<lparr>role = (if role msg = ''user'' then ''user'' else ''assistant''),
                content = content msg, msg_metadata = None\<rparr>])
         [] xs = map normalized_turn xs"
proof -
  have "foldl (\<lambda>acc m. acc @ [normalized_turn m]) [] xs = [] @ map normalized_turn xs"
    by (rule foldl_append_singletons)
  then show ?thesis by (simp add: normalized_turn_def)
qed

lemma format_chat_history_10:
  "format_chat_history ms 10 = map normalized_turn (drop (length ms - 10) ms)"
proof -
  have slice: "py_slice_from ms (- 10) = drop (length ms - 10) ms"
    using py_slice_from_last [of 10 ms] by simp
  show ?thesis
    unfolding format_chat_history_def Let_def format_loop_map
    using slice by simp
qed

lemma turn_line_normalized: "turn_line (normalized_turn m) = turn_line m"
  by (simp add: turn_line_def normalized_turn_def)

lemma qa_search_omitted_history:
  "qa_search llm query vs None k w = qa_search llm query vs (Some []) k w"
proof (cases vs)
  case None
  then show ?thesis by (simp add: qa_search_def)
next
  case (Some s)
  have omitted: "chat_history_to_str None = ''''"
    and empty: "chat_history_to_str (Some []) = ''''"
    by (simp_all add: chat_history_to_str_def)
  have "qa_search_try llm query s None k w = qa_search_try llm query s (Some []) k w"
    unfolding qa_search_try_def omitted empty ..
  with Some show ?thesis by (simp add: qa_search_def)
qed

section \<open>C4: history rendering\<close>

text \<open>
  Claim C4. History rendering is order-preserving, capped and formatted. The rendered
  block of a history is the concatenation, in the order of the turns, of one line per turn,
  "User: " or "Assistant: " followed by the content, each line followed by a blank line
  (\<open>turn_line\<close>). When the caller's \<^verbatim>\<open>format_chat_history\<close> with its window of 10 comes
  first, the block holds the lines of the last 10 turns only, in their original order. The
  empty history and the omitted one both render to the empty string, and \<^verbatim>\<open>qa_search\<close>
  does the same with an omitted history as with an empty list.
\<close>

theorem history_rendering_ordered_capped:
  "chat_history_to_str (Some hs) = concat (map turn_line hs)
   \<and> chat_history_to_str (Some (format_chat_history ms 10))
       = concat (map turn_line (drop (length ms - 10) ms))
   \<and> length (format_chat_history ms 10) = min 10 (length ms)
   \<and> chat_history_to_str (Some []) = ''''
   \<and> chat_history_to_str None = ''''
   \<and> qa_search llm query vs None k w = qa_search llm query vs (Some []) k w"
proof -
  have capped: "chat_history_to_str (Some (format_chat_history ms 10))
                  = concat (map turn_line (drop (length ms - 10) ms))"
    by (simp add: chat_history_to_str_Some format_chat_history_10 turn_line_normalized
          o_def)
  have len: "length (format_chat_history ms 10) = min 10 (length ms)"
    by (simp add: format_chat_history_10)
  have empty: "chat_history_to_str (Some []) = ''''" "chat_history_to_str None = ''''"
    by (simp_all add: chat_history_to_str_def)
  show ?thesis
    using chat_history_to_str_Some [of hs] capped len empty
      qa_search_omitted_history [of llm query vs k w]
    by simp
qed

section \<open>C9: the role test\<close>

text \<open>
  Claim C9. A turn is rendered with the prefix "User: " exactly when its role is the
  string "user"; with any other role it is rendered with the prefix "Assistant: ". The
  caller's \<^verbatim>\<open>format_chat_history\<close> normalises in the same way: the role it passes on is
  "user" exactly when the role is "user", and "assistant" for every other role.
\<close>

theorem role_user_iff_user_prefix:
  "chat_history_to_str (Some (before @ [m] @ after))
     = chat_history_to_str (Some before)
       @ (if role m = ''user'' then ''User: '' else ''Assistant: '')
       @ content m @ ''\<newline>\<newline>''
       @ chat_history_to_str (Some after)
   \<and> (take 6 (chat_history_to_str (Some [m])) = ''User: '') = (role m = ''user'')
   \<and> (take 11 (chat_history_to_str (Some [m])) = ''Assistant: '') = (role m \<noteq> ''user'')
   \<and> map role (format_chat_history ms 10)
       = map (\<lambda>m. if role m = ''user'' then ''user'' else ''assistant'')
           (drop (length ms - 10) ms)
   \<and> map content (format_chat_history ms 10) = map content (drop (length ms - 10) ms)"
proof -
  have split: "chat_history_to_str (Some (before @ [m] @ after))
     = chat_history_to_str (Some before)
       @ (if role m = ''user'' then ''User: '' else ''Assistant: '')
       @ content m @ ''\<newline>\<newline>''
       @ chat_history_to_str (Some after)"
    by (simp add: chat_history_to_str_Some turn_line_def)
  have one: "chat_history_to_str (Some [m]) = turn_line m"
    by (simp add: chat_history_to_str_Some)
  have user: "(take 6 (turn_line m) = ''User: '') = (role m = ''user'')"
    by (simp add: turn_line_def)
  have assistant: "(take 11 (turn_line m) = ''Assistant: '') = (role m \<noteq> ''user'')"
    by (simp add: turn_line_def)
  have roles: "map role (format_chat_history ms 10)
       = map (\<lambda>m. if role m = ''user'' then ''user'' else ''assistant'')
           (drop (length ms - 10) ms)"
    by (simp add: format_chat_history_10 normalized_turn_def o_def)
  have contents: "map content (format_chat_history ms 10)
       = map content (drop (length ms - 10) ms)"
    by (simp add: format_chat_history_10 normalized_turn_def o_def)
  show ?thesis
    using split one user assistant roles contents by simp
qed

section \<open>Facts about the engine\<close>

lemma extract_metadata_step:
  "extract_metadata (doc # docs) acc w =
     extract_metadata docs (acc @ [next_addr w])
       (w\<lparr>objs := (objs w)(next_addr w := copied_items (objs w) doc),
          next_addr := Suc (next_addr w)\<rparr>)"
  by (cases w; cases "metadata doc"; cases "similarity_score doc")
     (simp_all add: dict_alloc_def dict_setitem_def copied_items_def)

lemma extract_metadata_inv:
  assumes "extract_metadata docs acc w = (acc', w')"
    and "\<forall>d \<in> set docs. \<forall>a. metadata d = Some a \<longrightarrow> a < next_addr w"
  shows "acc' = acc @ [next_addr w ..< next_addr w + length docs]
       \<and> next_addr w' = next_addr w + length docs
       \<and> trace w' = trace w
       \<and> (\<forall>b < next_addr w. objs w' b = objs w b)
       \<and> (\<forall>i < length docs. objs w' (next_addr w + i) = copied_items (objs w) (docs ! i))"
  using assms
proof (induction docs arbitrary: acc w)
  case Nil
  then show ?case by simp
next
  case (Cons doc docs)
  let ?w1 = "w\<lparr>objs := (objs w)(next_addr w := copied_items (objs w) doc),
          next_addr := Suc (next_addr w)\<rparr>"
  have run: "extract_metadata docs (acc @ [next_addr w]) ?w1 = (acc', w')"
    using Cons.prems(1) by (simp only: extract_metadata_step)
  have wf: "\<forall>d \<in> set docs. \<forall>a. metadata d = Some a \<longrightarrow> a < next_addr ?w1"
    using Cons.prems(2) by auto
  note ih = Cons.IH [OF run wf]
  have same: "\<And>d. d \<in> set docs \<Longrightarrow> copied_items (objs ?w1) d = copied_items (objs w) d"
    using Cons.prems(2) by (auto simp: copied_items_def split: option.splits)
  have acc: "acc' = (acc @ [next_addr w]) @ [Suc (next_addr w) ..< Suc (next_addr w) + length docs]"
    using ih by simp
  have upt: "[next_addr w ..< next_addr w + length (doc # docs)]
               = next_addr w # [Suc (next_addr w) ..< Suc (next_addr w) + length docs]"
    by (simp add: upt_rec)
  have a1: "acc' = acc @ [next_addr w ..< next_addr w + length (doc # docs)]"
    using acc upt by simp
  have a2: "next_addr w' = next_addr w + length (doc # docs)" using ih by simp
  have a3: "trace w' = trace w" using ih by simp
  have a4: "\<forall>b < next_addr w. objs w' b = objs w b"
    using ih by simp
  have a5: "\<forall>i < length (doc # docs). objs w' (next_addr w + i) = copied_items (objs w) ((doc # docs) ! i)"
  proof (intro allI impI)
    fix i assume i: "i < length (doc # docs)"
    show "objs w' (next_addr w + i) = copied_items (objs w) ((doc # docs) ! i)"
    proof (cases i)
      case 0
      have "objs w' (next_addr w) = objs ?w1 (next_addr w)" using ih by simp
      then show ?thesis using 0 by simp
    next
      case (Suc j)
      then have j: "j < length docs" using i by simp
      have "objs w' (next_addr ?w1 + j) = copied_items (objs ?w1) (docs ! j)"
        using ih j by blast
      moreover have "copied_items (objs ?w1) (docs ! j) = copied_items (objs w) (docs ! j)"
        using same j by simp
      ultimately show ?thesis using Suc by simp
    qed
  qed
  show ?case using a1 a2 a3 a4 a5 by blast
qed

lemma qa_search_try_retrieval_fails:
  "vs k query = Inl e \<Longrightarrow>
   qa_search_try llm query vs history k w = (Inl e, w\<lparr>trace := trace w @ [Retrieve query k]\<rparr>)"
  by (simp add: qa_search_try_def retriever_invoke_def)

lemma qa_search_try_retrieved:
  assumes "vs k query = Inr docs"
    and "extract_metadata docs [] (w\<lparr>trace := trace w @ [Retrieve query k]\<rparr>) = (metas, w2)"
  shows "qa_search_try llm query vs history k w =
     (case llm (chain_prompt query docs history) of
        Inl e \<Rightarrow> Inl e
      | Inr ans \<Rightarrow> Inr \<lparr>answer = ans, document_metadata = metas, raw_answer = ans,
                        retrieved_count = Some (int (length docs)), error = None\<rparr>,
      w2\<lparr>trace := trace w2 @ [Retrieve query k, Generate (chain_prompt query docs history)]\<rparr>)"
  using assms
  by (simp add: qa_search_try_def retriever_invoke_def retrieval_chain_invoke_def
        document_chain_def RunnablePassthrough_def chain_input_dict_def chain_prompt_def Let_def
        split: sum.splits)

lemma qa_search_try_Inr:
  assumes "qa_search_try llm query vs history k w = (Inr res, w1)"
  shows "raw_answer res = answer res \<and> retrieved_count res \<noteq> None \<and> error res = None"
  using assms
  by (auto simp: qa_search_try_def Let_def split: sum.splits prod.splits)

lemma qa_search_Some:
  "qa_search llm query (Some vs) history k w =
     (case qa_search_try llm query vs history k w of
        (Inr result, w') \<Rightarrow> (Inr result, w')
      | (Inl (Exc cls e), w') \<Rightarrow>
          (Inr \<lparr>answer = ''Error querying the model: '' @ e, document_metadata = [],
                raw_answer = ''Error querying the model: '' @ e, retrieved_count = None,
                error = Some e\<rparr>, w')
      | (Inl (BaseExc cls e), w') \<Rightarrow> (Inl (BaseExc cls e), w'))"
  unfolding qa_search_def Let_def by simp

lemma qa_search_success:
  assumes "vs k query = Inr docs"
    and "llm (chain_prompt query docs history) = Inr ans"
    and "extract_metadata docs [] (w\<lparr>trace := trace w @ [Retrieve query k]\<rparr>) = (metas, w2)"
  shows "qa_search llm query (Some vs) history k w =
     (Inr \<lparr>answer = ans, document_metadata = metas, raw_answer = ans,
           retrieved_count = Some (int (length docs)), error = None\<rparr>,
      w2\<lparr>trace := trace w2 @ [Retrieve query k, Generate (chain_prompt query docs history)]\<rparr>)"
  using assms by (simp add: qa_search_Some qa_search_try_retrieved)

lemma qa_search_generation_fails:
  assumes "vs k query = Inr docs"
    and "llm (chain_prompt query docs history) = Inl e"
    and "extract_metadata docs [] (w\<lparr>trace := trace w @ [Retrieve query k]\<rparr>) = (metas, w2)"
  shows "qa_search_try llm query vs history k w =
     (Inl e, w2\<lparr>trace := trace w2 @ [Retrieve query k, Generate (chain_prompt query docs history)]\<rparr>)"
  using assms by (simp add: qa_search_try_retrieved)

lemma extract_metadata_addrs:
  "fst (extract_metadata docs acc w) = acc @ [next_addr w ..< next_addr w + length docs]
   \<and> next_addr (snd (extract_metadata docs acc w)) = next_addr w + length docs
   \<and> trace (snd (extract_metadata docs acc w)) = trace w"
proof (induction docs arbitrary: acc w)
  case Nil
  show ?case by simp
next
  case (Cons doc docs)
  have upt: "[next_addr w ..< next_addr w + length (doc # docs)]
               = next_addr w # [Suc (next_addr w) ..< Suc (next_addr w) + length docs]"
    by (simp add: upt_rec)
  show ?case
    unfolding extract_metadata_step upt
    using Cons.IH [of "acc @ [next_addr w]"
        "w\<lparr>objs := (objs w)(next_addr w := copied_items (objs w) doc), next_addr := Suc (next_addr w)\<rparr>"]
    by simp
qed

lemma qa_search_success_result:
  assumes "vs k query = Inr docs"
    and "llm (chain_prompt query docs history) = Inr ans"
  shows "fst (qa_search llm query (Some vs) history k w) =
           Inr \<lparr>answer = ans,
                document_metadata = [next_addr w ..< next_addr w + length docs],
                raw_answer = ans,
                retrieved_count = Some (int (length docs)), error = None\<rparr>"
    and "trace (snd (qa_search llm query (Some vs) history k w)) =
           trace w @ [Retrieve query k, Retrieve query k,
                      Generate (chain_prompt query docs history)]"
    and "objs (snd (qa_search llm query (Some vs) history k w)) =
           objs (snd (extract_metadata docs [] w))"
proof -
  let ?w1 = "w\<lparr>trace := trace w @ [Retrieve query k]\<rparr>"
  obtain metas w2 where ex: "extract_metadata docs [] ?w1 = (metas, w2)"
    by (cases "extract_metadata docs [] ?w1")
  have metas: "metas = [next_addr w ..< next_addr w + length docs]"
    and tr: "trace w2 = trace w @ [Retrieve query k]"
    using extract_metadata_addrs [of docs "[]" ?w1] ex by simp_all
  have run: "qa_search llm query (Some vs) history k w =
     (Inr \<lparr>answer = ans, document_metadata = metas, raw_answer = ans,
           retrieved_count = Some (int (length docs)), error = None\<rparr>,
      w2\<lparr>trace := trace w2 @ [Retrieve query k, Generate (chain_prompt query docs history)]\<rparr>)"
    using qa_search_success [of vs k query docs llm history ans w metas w2] assms ex
    by simp
  show "fst (qa_search llm query (Some vs) history k w) =
           Inr \<lparr>answer = ans,
                document_metadata = [next_addr w ..< next_addr w + length docs],
                raw_answer = ans,
                retrieved_count = Some (int (length docs)), error = None\<rparr>"
    using run metas by simp
  show "trace (snd (qa_search llm query (Some vs) history k w)) =
           trace w @ [Retrieve query k, Retrieve query k,
                      Generate (chain_prompt query docs history)]"
    using run tr by simp
  have indep: "objs (snd (extract_metadata ds acc \<lparr>objs = h, next_addr = n, trace = t\<rparr>))
          = objs (snd (extract_metadata ds acc \<lparr>objs = h, next_addr = n, trace = t'\<rparr>))"
    for ds acc h n t t'
    by (induction ds arbitrary: acc h n)
       (simp_all add: extract_metadata_step del: extract_metadata.simps(2))
  have "objs (snd (extract_metadata docs [] ?w1)) = objs (snd (extract_metadata docs [] w))"
    using indep [of docs "[]" "objs w" "next_addr w" "trace w @ [Retrieve query k]" "trace w"]
    by (cases w) simp
  then have "objs w2 = objs (snd (extract_metadata docs [] w))"
    using ex by simp
  then show "objs (snd (qa_search llm query (Some vs) history k w)) =
           objs (snd (extract_metadata docs [] w))"
    using run ex by simp
qed

lemma ex_store_all: "ex_store 5 ''Q'' = Inr [ex_doc1, ex_doc2]"
  by (simp add: ex_store_def spec_vectorstore_def spec_search_def sort_key_def
        ex_distance_def ex_doc1_def ex_doc2_def)

lemma ex_success:
  "fst (qa_search ex_llm ''Q'' (Some ex_store) None 5 ex_world)
     = Inr \<lparr>answer = ''Total sales are 3.'', document_metadata = [2, 3],
            raw_answer = ''Total sales are 3.'', retrieved_count = Some 2, error = None\<rparr>"
proof -
  have "[2 ..< 4] = [2::nat, 3]" by (simp add: upt_rec)
  then show ?thesis
    using qa_search_success_result(1) [of ex_store 5 "''Q''" "[ex_doc1, ex_doc2]" ex_llm None
        "''Total sales are 3.''" ex_world]
    by (simp add: ex_store_all ex_llm_def ex_world_def)
qed

lemma qa_search_caught:
  assumes "vs k query = Inl (Exc cls cause)
           \<or> (\<exists>docs. vs k query = Inr docs
                 \<and> llm (chain_prompt query docs history) = Inl (Exc cls cause))"
  shows "fst (qa_search llm query (Some vs) history k w)
           = Inr \<lparr>answer = ''Error querying the model: '' @ cause,
                  document_metadata = [],
                  raw_answer = ''Error querying the model: '' @ cause,
                  retrieved_count = None,
                  error = Some cause\<rparr>"
  using assms
proof
  assume "vs k query = Inl (Exc cls cause)"
  then show ?thesis
    by (simp add: qa_search_Some qa_search_try_retrieval_fails)
next
  assume "\<exists>docs. vs k query = Inr docs
            \<and> llm (chain_prompt query docs history) = Inl (Exc cls cause)"
  then obtain docs where docs: "vs k query = Inr docs"
    and gen: "llm (chain_prompt query docs history) = Inl (Exc cls cause)" by blast
  obtain metas w2 where
    ex: "extract_metadata docs [] (w\<lparr>trace := trace w @ [Retrieve query k]\<rparr>) = (metas, w2)"
    by (cases "extract_metadata docs [] (w\<lparr>trace := trace w @ [Retrieve query k]\<rparr>)")
  show ?thesis
    using qa_search_generation_fails [of vs k query docs llm history "Exc cls cause" w metas w2]
      docs gen ex
    by (simp add: qa_search_Some)
qed

lemma returned_result_keys:
  assumes "qa_search llm query store history k w = (Inr r, w')"
  shows "raw_answer r = answer r
       \<and> (\<exists>vs. store = Some vs
            \<and> (case fst (qa_search_try llm query vs history k w) of
                 Inr res \<Rightarrow> r = res \<and> retrieved_count r \<noteq> None \<and> error r = None
               | Inl e \<Rightarrow> retrieved_count r = None \<and> error r \<noteq> None))"
proof (cases store)
  case None
  with assms show ?thesis by (simp add: qa_search_def)
next
  case (Some vs)
  obtain out w1 where body: "qa_search_try llm query vs history k w = (out, w1)"
    by (cases "qa_search_try llm query vs history k w")
  show ?thesis
  proof (cases out)
    case (Inr res)
    with assms Some body have "r = res" by (simp add: qa_search_Some)
    with qa_search_try_Inr [of llm query vs history k w res w1] body Inr Some
    show ?thesis by simp
  next
    case (Inl e)
    with assms Some body show ?thesis
      by (cases e) (auto simp: qa_search_Some)
  qed
qed

section \<open>C10: the shape of the result\<close>

text \<open>
  Claim C10. Every result that \<^verbatim>\<open>qa_search\<close> returns, on success or on failure, has
  a \<^verbatim>\<open>raw_answer\<close> equal to its \<^verbatim>\<open>answer\<close>; a result is returned only with a vector
  store, and it has \<^verbatim>\<open>retrieved_count\<close> and no \<^verbatim>\<open>error\<close> when the body of the
  \<^verbatim>\<open>try\<close> succeeded, \<^verbatim>\<open>error\<close> and no \<^verbatim>\<open>retrieved_count\<close> when it failed. Both
  results are returned: when retrieval and generation succeed, the result is the success
  dict, with the answer of the model under \<^verbatim>\<open>answer\<close> and \<^verbatim>\<open>raw_answer\<close>, the number
  of retrieved documents under \<^verbatim>\<open>retrieved_count\<close> and no \<^verbatim>\<open>error\<close>; when retrieval
  or generation fails with an exception, the result is the failure dict, with the same
  error message under \<^verbatim>\<open>answer\<close> and \<^verbatim>\<open>raw_answer\<close>, the cause under \<^verbatim>\<open>error\<close>
  and no \<^verbatim>\<open>retrieved_count\<close>.
\<close>

theorem result_keys_by_outcome:
  "(qa_search llm query store history k w = (Inr r, w') \<longrightarrow>
      raw_answer r = answer r
      \<and> (\<exists>vs. store = Some vs
           \<and> (case fst (qa_search_try llm query vs history k w) of
                Inr res \<Rightarrow> r = res \<and> retrieved_count r \<noteq> None \<and> error r = None
              | Inl e \<Rightarrow> retrieved_count r = None \<and> error r \<noteq> None)))
   \<and> (s k query = Inr docs \<and> llm (chain_prompt query docs history) = Inr ans \<longrightarrow>
      fst (qa_search llm query (Some s) history k w)
        = Inr \<lparr>answer = ans,
               document_metadata = [next_addr w ..< next_addr w + length docs],
               raw_answer = ans,
               retrieved_count = Some (int (length docs)),
               error = None\<rparr>)
   \<and> (s k query = Inl (Exc cls cause)
       \<or> (\<exists>docs. s k query = Inr docs
             \<and> llm (chain_prompt query docs history) = Inl (Exc cls cause)) \<longrightarrow>
      fst (qa_search llm query (Some s) history k w)
        = Inr \<lparr>answer = ''Error querying the model: '' @ cause,
               document_metadata = [],
               raw_answer = ''Error querying the model: '' @ cause,
               retrieved_count = None,
               error = Some cause\<rparr>)"
proof (intro conjI impI)
  assume "qa_search llm query store history k w = (Inr r, w')"
  then have both: "raw_answer r = answer r
       \<and> (\<exists>vs. store = Some vs
            \<and> (case fst (qa_search_try llm query vs history k w) of
                 Inr res \<Rightarrow> r = res \<and> retrieved_count r \<noteq> None \<and> error r = None
               | Inl e \<Rightarrow> retrieved_count r = None \<and> error r \<noteq> None))"
    by (rule returned_result_keys)
  from both show "raw_answer r = answer r" ..
  from both show "\<exists>vs. store = Some vs
            \<and> (case fst (qa_search_try llm query vs history k w) of
                 Inr res \<Rightarrow> r = res \<and> retrieved_count r \<noteq> None \<and> error r = None
               | Inl e \<Rightarrow> retrieved_count r = None \<and> error r \<noteq> None)" ..
next
  assume "s k query = Inr docs \<and> llm (chain_prompt query docs history) = Inr ans"
  then show "fst (qa_search llm query (Some s) history k w)
        = Inr \<lparr>answer = ans,
               document_metadata = [next_addr w ..< next_addr w + length docs],
               raw_answer = ans,
               retrieved_count = Some (int (length docs)),
               error = None\<rparr>"
    using qa_search_success_result(1) [of s k query docs llm history ans w] by simp
next
  assume "s k query = Inl (Exc cls cause)
       \<or> (\<exists>docs. s k query = Inr docs
             \<and> llm (chain_prompt query docs history) = Inl (Exc cls cause))"
  then show "fst (qa_search llm query (Some s) history k w)
        = Inr \<lparr>answer = ''Error querying the model: '' @ cause,
               document_metadata = [],
               raw_answer = ''Error querying the model: '' @ cause,
               retrieved_count = None,
               error = Some cause\<rparr>"
    by (rule qa_search_caught)
qed

theorem result_keys_by_outcome_witness:
  "qa_search ex_llm ''Q'' (Some ex_store) None 5 ex_world
     = (Inr \<lparr>answer = ''Total sales are 3.'', document_metadata = [2, 3],
              raw_answer = ''Total sales are 3.'', retrieved_count = Some 2, error = None\<rparr>,
        snd (qa_search ex_llm ''Q'' (Some ex_store) None 5 ex_world))
   \<and> raw_answer \<lparr>answer = ''Total sales are 3.'', document_metadata = [2, 3],
              raw_answer = ''Total sales are 3.'', retrieved_count = Some 2, error = None\<rparr>
       = ''Total sales are 3.''
   \<and> ex_store 5 ''Q'' = Inr [ex_doc1, ex_doc2]
   \<and> ex_llm (chain_prompt ''Q'' [ex_doc1, ex_doc2] None) = Inr ''Total sales are 3.''
   \<and> ex_store_down 5 ''Q'' = Inl (Exc ''ConnectionError'' ''index unreachable'')
   \<and> fst (qa_search ex_llm ''Q'' (Some ex_store_down) None 5 ex_world)
       = Inr \<lparr>answer = ''Error querying the model: index unreachable'',
              document_metadata = [],
              raw_answer = ''Error querying the model: index unreachable'',
              retrieved_count = None,
              error = Some ''index unreachable''\<rparr>
   \<and> ex_llm_down (chain_prompt ''Q'' [ex_doc1, ex_doc2] None)
       = Inl (Exc ''APIError'' ''service unavailable'')
   \<and> fst (qa_search ex_llm_down ''Q'' (Some ex_store) None 5 ex_world)
       = Inr \<lparr>answer = ''Error querying the model: service unavailable'',
              document_metadata = [],
              raw_answer = ''Error querying the model: service unavailable'',
              retrieved_count = None,
              error = Some ''service unavailable''\<rparr>"
proof -
  let ?ok = "\<lparr>answer = ''Total sales are 3.'', document_metadata = [2::nat, 3],
              raw_answer = ''Total sales are 3.'', retrieved_count = Some 2, error = None\<rparr>"
  have upt: "[2 ..< 4] = [2::nat, 3]" by (simp add: upt_rec)
  have docs: "ex_store 5 ''Q'' = Inr [ex_doc1, ex_doc2]" by (rule ex_store_all)
  have gen: "ex_llm (chain_prompt ''Q'' [ex_doc1, ex_doc2] None) = Inr ''Total sales are 3.''"
    by (simp add: ex_llm_def)
  have down: "ex_store_down 5 ''Q'' = Inl (Exc ''ConnectionError'' ''index unreachable'')"
    by (simp add: ex_store_down_def)
  have gen_down: "ex_llm_down (chain_prompt ''Q'' [ex_doc1, ex_doc2] None)
       = Inl (Exc ''APIError'' ''service unavailable'')"
    by (simp add: ex_llm_down_def)
  have success: "fst (qa_search ex_llm ''Q'' (Some ex_store) None 5 ex_world) = Inr ?ok"
    using result_keys_by_outcome [where llm = ex_llm and query = "''Q''" and s = ex_store
        and docs = "[ex_doc1, ex_doc2]" and history = None and k = 5 and w = ex_world
        and ans = "''Total sales are 3.''"]
      docs gen upt
    by (simp add: ex_world_def)
  then have run: "qa_search ex_llm ''Q'' (Some ex_store) None 5 ex_world
     = (Inr ?ok, snd (qa_search ex_llm ''Q'' (Some ex_store) None 5 ex_world))"
    by (simp add: prod_eq_iff)
  have keys: "raw_answer ?ok = ''Total sales are 3.''"
    using result_keys_by_outcome [where llm = ex_llm and query = "''Q''"
        and store = "Some ex_store" and history = None and k = 5 and w = ex_world
        and r = ?ok and w' = "snd (qa_search ex_llm ''Q'' (Some ex_store) None 5 ex_world)"]
      run
    by simp
  have retrieval_failed: "fst (qa_search ex_llm ''Q'' (Some ex_store_down) None 5 ex_world)
       = Inr \<lparr>answer = ''Error querying the model: index unreachable'',
              document_metadata = [],
              raw_answer = ''Error querying the model: index unreachable'',
              retrieved_count = None,
              error = Some ''index unreachable''\<rparr>"
    using result_keys_by_outcome [where llm = ex_llm and query = "''Q''" and s = ex_store_down
        and history = None and k = 5 and w = ex_world
        and cls = "''ConnectionError''" and cause = "''index unreachable''"]
      down
    by simp
  have generation_failed: "fst (qa_search ex_llm_down ''Q'' (Some ex_store) None 5 ex_world)
       = Inr \<lparr>answer = ''Error querying the model: service unavailable'',
              document_metadata = [],
              raw_answer = ''Error querying the model: service unavailable'',
              retrieved_count = None,
              error = Some ''service unavailable''\<rparr>"
    using result_keys_by_outcome [where llm = ex_llm_down and query = "''Q''" and s = ex_store
        and history = None and k = 5 and w = ex_world
        and cls = "''APIError''" and cause = "''service unavailable''"]
      docs gen_down
    by simp
  show ?thesis
    using run keys docs gen down retrieval_failed gen_down generation_failed
    by (intro conjI)
qed

section \<open>C2: failures of retrieval and generation\<close>

text \<open>
  Claim C2. When retrieval fails with an exception, or retrieval succeeds and generation
  (the model on the prompt of the chain) fails with an exception, \<^verbatim>\<open>qa_search\<close> does
  not raise: it returns the result whose \<^verbatim>\<open>answer\<close> is "Error querying the model: "
  followed by the cause, so it contains "Error"; \<^verbatim>\<open>document_metadata\<close> is empty,
  \<^verbatim>\<open>retrieved_count\<close> is absent and \<^verbatim>\<open>error\<close> holds the cause. The exception is an
  instance of Python's \<^verbatim>\<open>Exception\<close>, as the failures of a store or of a model are.
\<close>

theorem failure_is_caught:
  assumes "vs k query = Inl (Exc cls cause)
           \<or> (\<exists>docs. vs k query = Inr docs
                 \<and> llm (chain_prompt query docs history) = Inl (Exc cls cause))"
  shows "fst (qa_search llm query (Some vs) history k w)
           = Inr \<lparr>answer = ''Error querying the model: '' @ cause,
                  document_metadata = [],
                  raw_answer = ''Error querying the model: '' @ cause,
                  retrieved_count = None,
                  error = Some cause\<rparr>"
  using assms by (rule qa_search_caught)

theorem failure_is_caught_witness:
  "fst (qa_search ex_llm ''Q'' (Some ex_store_down) None 5 ex_world)
           = Inr \<lparr>answer = ''Error querying the model: index unreachable'',
                  document_metadata = [],
                  raw_answer = ''Error querying the model: index unreachable'',
                  retrieved_count = None,
                  error = Some ''index unreachable''\<rparr>
   \<and> fst (qa_search ex_llm_down ''Q'' (Some ex_store) None 5 ex_world)
           = Inr \<lparr>answer = ''Error querying the model: service unavailable'',
                  document_metadata = [],
                  raw_answer = ''Error querying the model: service unavailable'',
                  retrieved_count = None,
                  error = Some ''service unavailable''\<rparr>"
proof -
  have down: "ex_store_down 5 ''Q'' = Inl (Exc ''ConnectionError'' ''index unreachable'')"
    by (simp add: ex_store_down_def)
  have gen: "\<exists>docs. ex_store 5 ''Q'' = Inr docs
      \<and> ex_llm_down (chain_prompt ''Q'' docs None) = Inl (Exc ''APIError'' ''service unavailable'')"
    by (simp add: ex_store_all ex_llm_down_def)
  show ?thesis
    using failure_is_caught [of ex_store_down 5 "''Q''" "''ConnectionError''" "''index unreachable''" ex_llm None ex_world]
      failure_is_caught [of ex_store 5 "''Q''" "''APIError''" "''service unavailable''" ex_llm_down None ex_world]
      down gen
    by simp
qed

section \<open>C1: the absent index\<close>

text \<open>
  Claim C1, as stated: called with an absent index, \<^verbatim>\<open>qa_search\<close> returns a result with
  the not-initialized message and never raises. It does not: line 44 calls
  \<^verbatim>\<open>as_retriever\<close> on \<^verbatim>\<open>None\<close> before the \<^verbatim>\<open>try\<close>, and the AttributeError leaves
  the call.
\<close>

theorem absent_index_raises:
  "fst (qa_search ex_llm ''Q'' None None 5 ex_world)
     = Inl (Exc ''AttributeError''
             ([CHR 0x27] @ ''NoneType'' @ [CHR 0x27] @ '' object has no attribute ''
              @ [CHR 0x27] @ ''as_retriever'' @ [CHR 0x27]))"
  by (simp add: qa_search_def)

text \<open>
  Claim C1, amended. With an absent index \<^verbatim>\<open>qa_search\<close> raises AttributeError and leaves
  the world as it is: no retrieval and no generation. The not-initialized case is handled
  by the caller: when the session has no vector store, the query processing of app.py does
  not call \<^verbatim>\<open>qa_search\<close>; it records the user's turn, shows "Knowledge base not
  initialized. Please try again.", makes no retrieval and no generation, and no exception
  leaves the block.
\<close>

theorem absent_index_handled_by_caller:
  assumes "vectorstore st = None" and "should_process_query st" and "last_query st \<noteq> ''''"
  shows "process_query llm st w =
           (None,
            st\<lparr>should_process_query := False,
               messages := messages st
                 @ [\<lparr>role = ''user'', content = last_query st, msg_metadata = None\<rparr>]\<rparr>,
            w\<lparr>trace := trace w
                 @ [StError ''Knowledge base not initialized. Please try again.'']\<rparr>)
       \<and> qa_search llm query None history k w =
           (Inl (Exc ''AttributeError''
                  ([CHR 0x27] @ ''NoneType'' @ [CHR 0x27] @ '' object has no attribute ''
                   @ [CHR 0x27] @ ''as_retriever'' @ [CHR 0x27])), w)"
  using assms by (simp add: process_query_def qa_search_def Let_def)

theorem absent_index_handled_by_caller_witness:
  "process_query ex_llm (set_query ''Q'' (initial_session None)) ex_world =
           (None,
            \<lparr>messages = [\<lparr>role = ''user'', content = ''Q'', msg_metadata = None\<rparr>],
             last_query = ''Q'', vectorstore = None, should_process_query = False\<rparr>,
            ex_world\<lparr>trace := [StError ''Knowledge base not initialized. Please try again.'']\<rparr>)"
  using absent_index_handled_by_caller [of "set_query ''Q'' (initial_session None)" ex_llm ex_world]
  by (simp add: set_query_def initial_session_def ex_world_def)

section \<open>C3: the slots of the prompt\<close>

text \<open>
  Claim C3 says that the question slot of the prompt receives the query string and the
  chat-history slot the rendered history. For the query "Q", the history of one user turn
  "Hello" and the two documents of the example index, the call succeeds and the model is
  called once, on a prompt with the four sections in the order of the template, the texts
  of the documents joined by a blank line in the context slot; but the chat-history slot
  and the question slot both hold the whole input dict of the chain,
  \<^verbatim>\<open>{"question": "Q", "chat_history": "User: Hello\n\n"}\<close>, since both branches are
  \<^verbatim>\<open>RunnablePassthrough()\<close>.
\<close>

theorem prompt_slots_hold_input_dict:
  "fst (qa_search ex_llm ''Q'' (Some ex_store)
          (Some [\<lparr>role = ''user'', content = ''Hello'', msg_metadata = None\<rparr>]) 5 ex_world)
     = Inr \<lparr>answer = ''Total sales are 3.'', document_metadata = [2, 3],
            raw_answer = ''Total sales are 3.'', retrieved_count = Some 2, error = None\<rparr>
   \<and> trace (snd (qa_search ex_llm ''Q'' (Some ex_store)
          (Some [\<lparr>role = ''user'', content = ''Hello'', msg_metadata = None\<rparr>]) 5 ex_world))
     = [Retrieve ''Q'' 5, Retrieve ''Q'' 5,
        Generate
          [Text template_intro,
           Value (PDict [(''question'', PStr ''Q''),
                         (''chat_history'', PStr ''User: Hello\<newline>\<newline>'')]),
           Text template_before_context,
           Value (PStr ''Overall Sales Summary\<newline>\<newline>Sales Summary for East Region''),
           Text template_before_question,
           Value (PDict [(''question'', PStr ''Q''),
                         (''chat_history'', PStr ''User: Hello\<newline>\<newline>'')]),
           Text template_instruction]]"
proof -
  let ?h = "Some [\<lparr>role = ''user'', content = ''Hello'', msg_metadata = None\<rparr>]"
  have upt: "[2 ..< 4] = [2::nat, 3]" by (simp add: upt_rec)
  have llm: "ex_llm (chain_prompt ''Q'' [ex_doc1, ex_doc2] ?h) = Inr ''Total sales are 3.''"
    by (simp add: ex_llm_def)
  have prompt: "chain_prompt ''Q'' [ex_doc1, ex_doc2] ?h =
          [Text template_intro,
           Value (PDict [(''question'', PStr ''Q''),
                         (''chat_history'', PStr ''User: Hello\<newline>\<newline>'')]),
           Text template_before_context,
           Value (PStr ''Overall Sales Summary\<newline>\<newline>Sales Summary for East Region''),
           Text template_before_question,
           Value (PDict [(''question'', PStr ''Q''),
                         (''chat_history'', PStr ''User: Hello\<newline>\<newline>'')]),
           Text template_instruction]"
    by (simp add: chain_prompt_def format_prompt_def format_docs_def chat_history_to_str_def
          ex_doc1_def ex_doc2_def)
  have res: "fst (qa_search ex_llm ''Q'' (Some ex_store) ?h 5 ex_world)
     = Inr \<lparr>answer = ''Total sales are 3.'', document_metadata = [2, 3],
            raw_answer = ''Total sales are 3.'', retrieved_count = Some 2, error = None\<rparr>"
    using qa_search_success_result(1) [of ex_store 5 "''Q''" "[ex_doc1, ex_doc2]" ex_llm ?h
        "''Total sales are 3.''" ex_world] ex_store_all llm upt
    by (simp add: ex_world_def)
  have tr: "trace (snd (qa_search ex_llm ''Q'' (Some ex_store) ?h 5 ex_world))
     = [Retrieve ''Q'' 5, Retrieve ''Q'' 5, Generate (chain_prompt ''Q'' [ex_doc1, ex_doc2] ?h)]"
    using qa_search_success_result(2) [of ex_store 5 "''Q''" "[ex_doc1, ex_doc2]" ex_llm ?h
        "''Total sales are 3.''" ex_world] ex_store_all llm
    by (simp add: ex_world_def)
  show ?thesis
    using res tr prompt by simp
qed

section \<open>Facts about successful calls\<close>

lemma qa_search_success_cases:
  assumes run: "qa_search llm query (Some vs) history k w = (Inr r, w')"
    and ok: "error r = None"
    and docs: "vs k query = Inr docs"
  obtains ans metas w2 where
    "llm (chain_prompt query docs history) = Inr ans"
    "extract_metadata docs [] (w\<lparr>trace := trace w @ [Retrieve query k]\<rparr>) = (metas, w2)"
    "r = \<lparr>answer = ans, document_metadata = metas, raw_answer = ans,
          retrieved_count = Some (int (length docs)), error = None\<rparr>"
    "w' = w2\<lparr>trace := trace w2 @ [Retrieve query k,
                                     Generate (chain_prompt query docs history)]\<rparr>"
proof -
  obtain metas w2 where
    ex: "extract_metadata docs [] (w\<lparr>trace := trace w @ [Retrieve query k]\<rparr>) = (metas, w2)"
    by (cases "extract_metadata docs [] (w\<lparr>trace := trace w @ [Retrieve query k]\<rparr>)")
  show thesis
  proof (cases "llm (chain_prompt query docs history)")
    case (Inr ans)
    have "qa_search llm query (Some vs) history k w =
     (Inr \<lparr>answer = ans, document_metadata = metas, raw_answer = ans,
           retrieved_count = Some (int (length docs)), error = None\<rparr>,
      w2\<lparr>trace := trace w2 @ [Retrieve query k, Generate (chain_prompt query docs history)]\<rparr>)"
      using qa_search_success [of vs k query docs llm history ans w metas w2] docs Inr ex
      by simp
    with run have "r = \<lparr>answer = ans, document_metadata = metas, raw_answer = ans,
          retrieved_count = Some (int (length docs)), error = None\<rparr>"
      and "w' = w2\<lparr>trace := trace w2 @ [Retrieve query k,
                                     Generate (chain_prompt query docs history)]\<rparr>"
      by simp_all
    with Inr ex that show thesis by blast
  next
    case (Inl e)
    have "qa_search_try llm query vs history k w =
       (Inl e, w2\<lparr>trace := trace w2 @ [Retrieve query k,
                                       Generate (chain_prompt query docs history)]\<rparr>)"
      using qa_search_generation_fails [of vs k query docs llm history e w metas w2] docs Inl ex
      by simp
    with run ok have False
      by (cases e) (auto simp: qa_search_Some)
    then show thesis ..
  qed
qed

lemma length_spec_search:
  "length (spec_search index distance query k) = (if k \<le> length index then k else length index)"
  by (simp add: spec_search_def min_def)

lemma ex_store_one: "ex_store 1 ''Q'' = Inr [ex_doc1]"
  by (simp add: ex_store_def spec_vectorstore_def spec_search_def sort_key_def
        ex_distance_def ex_doc1_def ex_doc2_def)

lemma ex_objs_after:
  "objs (snd (qa_search ex_llm ''Q'' (Some ex_store) None 5 ex_world))
     = (objs ex_world)
         (2 := [(''type'', PStr ''overall''), (''raw_data'', PRef 1)],
          3 := [(''similarity_score'', PFloat 3 (- 2))])"
proof -
  have "objs (snd (qa_search ex_llm ''Q'' (Some ex_store) None 5 ex_world))
          = objs (snd (extract_metadata [ex_doc1, ex_doc2] [] ex_world))"
    using qa_search_success_result(3) [of ex_store 5 "''Q''" "[ex_doc1, ex_doc2]" ex_llm None
        "''Total sales are 3.''" ex_world] ex_store_all
    by (simp add: ex_llm_def)
  also have "\<dots> = (objs ex_world)
         (2 := [(''type'', PStr ''overall''), (''raw_data'', PRef 1)],
          3 := [(''similarity_score'', PFloat 3 (- 2))])"
    by (simp add: extract_metadata_step copied_items_def ex_doc1_def ex_doc2_def ex_world_def
          numeral_3_eq_3 numeral_2_eq_2
          del: extract_metadata.simps(2))
  finally show ?thesis .
qed

section \<open>C6: the number of retrieved documents\<close>

text \<open>
  Claim C6. For every \<open>k \<ge> 1\<close>, a successful call of \<^verbatim>\<open>qa_search\<close> asks the index for
  \<open>k\<close> documents (both retrievals of the call carry \<open>k\<close>) and returns as
  \<^verbatim>\<open>retrieved_count\<close> the number of documents that the search returned; with the search
  of the specification this number is \<open>k\<close> when the index holds at least \<open>k\<close> documents and
  the size of the index otherwise. There is one copied metadata dict per retrieved document.
\<close>

theorem retrieved_count_of_spec_store:
  assumes "1 \<le> k"
    and "qa_search llm query (Some (spec_vectorstore index distance)) history k w = (Inr r, w')"
    and "error r = None"
  shows "retrieved_count r = Some (int (length (spec_search index distance query k)))
       \<and> length (spec_search index distance query k)
           = (if k \<le> length index then k else length index)
       \<and> length (document_metadata r) = length (spec_search index distance query k)
       \<and> trace w' = trace w
           @ [Retrieve query k, Retrieve query k,
              Generate (chain_prompt query (spec_search index distance query k) history)]"
proof -
  let ?docs = "spec_search index distance query k"
  have docs: "spec_vectorstore index distance k query = Inr ?docs"
    by (simp add: spec_vectorstore_def)
  from assms(2) assms(3) docs obtain ans metas w2 where
    ex: "extract_metadata ?docs [] (w\<lparr>trace := trace w @ [Retrieve query k]\<rparr>) = (metas, w2)"
    and r: "r = \<lparr>answer = ans, document_metadata = metas, raw_answer = ans,
          retrieved_count = Some (int (length ?docs)), error = None\<rparr>"
    and w': "w' = w2\<lparr>trace := trace w2 @ [Retrieve query k,
                                     Generate (chain_prompt query ?docs history)]\<rparr>"
    by (rule qa_search_success_cases)
  have metas: "metas = [next_addr w ..< next_addr w + length ?docs]"
    and tr: "trace w2 = trace w @ [Retrieve query k]"
    using extract_metadata_addrs [of ?docs "[]" "w\<lparr>trace := trace w @ [Retrieve query k]\<rparr>"] ex
    by simp_all
  show ?thesis
    using r w' metas tr length_spec_search [of index distance query k] by simp
qed

theorem retrieved_count_of_spec_store_witness:
  "(1::nat) \<le> 1
   \<and> fst (qa_search ex_llm ''Q'' (Some (spec_vectorstore [ex_doc1, ex_doc2] ex_distance))
            None 1 ex_world)
       = Inr \<lparr>answer = ''Total sales are 3.'', document_metadata = [2],
              raw_answer = ''Total sales are 3.'', retrieved_count = Some 1, error = None\<rparr>
   \<and> length (spec_search [ex_doc1, ex_doc2] ex_distance ''Q'' 1) = 1
   \<and> (1::nat) \<le> 5
   \<and> fst (qa_search ex_llm ''Q'' (Some (spec_vectorstore [ex_doc1, ex_doc2] ex_distance))
            None 5 ex_world)
       = Inr \<lparr>answer = ''Total sales are 3.'', document_metadata = [2, 3],
              raw_answer = ''Total sales are 3.'', retrieved_count = Some 2, error = None\<rparr>
   \<and> length (spec_search [ex_doc1, ex_doc2] ex_distance ''Q'' 5) = 2"
proof -
  let ?r = "\<lparr>answer = ''Total sales are 3.'', document_metadata = [2::nat],
              raw_answer = ''Total sales are 3.'', retrieved_count = Some 1, error = None\<rparr>"
  let ?r5 = "\<lparr>answer = ''Total sales are 3.'', document_metadata = [2::nat, 3],
              raw_answer = ''Total sales are 3.'', retrieved_count = Some 2, error = None\<rparr>"
  let ?store = "spec_vectorstore [ex_doc1, ex_doc2] ex_distance"
  have upt: "[2 ..< 3] = [2::nat]" by (simp add: upt_rec)
  have res: "fst (qa_search ex_llm ''Q'' (Some ex_store) None 1 ex_world) = Inr ?r"
    using qa_search_success_result(1) [of ex_store 1 "''Q''" "[ex_doc1]" ex_llm None
        "''Total sales are 3.''" ex_world] upt ex_store_one
    by (simp add: ex_llm_def ex_world_def)
  then have run: "qa_search ex_llm ''Q'' (Some ?store) None 1 ex_world
      = (Inr ?r, snd (qa_search ex_llm ''Q'' (Some ?store) None 1 ex_world))"
    by (simp add: prod_eq_iff ex_store_def)
  have one: "length (spec_search [ex_doc1, ex_doc2] ex_distance ''Q'' 1) = 1"
    using retrieved_count_of_spec_store [OF _ run] by simp
  have res5: "fst (qa_search ex_llm ''Q'' (Some ?store) None 5 ex_world) = Inr ?r5"
    using ex_success by (simp add: ex_store_def)
  then have run5: "qa_search ex_llm ''Q'' (Some ?store) None 5 ex_world
      = (Inr ?r5, snd (qa_search ex_llm ''Q'' (Some ?store) None 5 ex_world))"
    by (simp add: prod_eq_iff)
  have five: "length (spec_search [ex_doc1, ex_doc2] ex_distance ''Q'' 5) = 2"
    using retrieved_count_of_spec_store [OF _ run5] by simp
  show ?thesis
    using res one res5 five by (simp add: ex_store_def)
qed

section \<open>C5: the copy of the metadata\<close>

text \<open>
  Claim C5, as stated: a later mutation of a returned metadata entry, its nested
  \<^verbatim>\<open>raw_data\<close> mapping included, leaves the metadata of the stored document unchanged.
  The copy is \<^verbatim>\<open>dict(doc.metadata)\<close>, which copies the items and shares the values. For
  the example index the first returned entry is the dict at address 2, a copy of the stored
  dict at address 0; both hold the same \<^verbatim>\<open>raw_data\<close> dict. After the caller's
  \<^verbatim>\<open>entry["raw_data"]["total_records"] = 0\<close> the stored document's metadata reads 0
  where it read 3.
\<close>

theorem nested_raw_data_is_shared:
  "fst (qa_search ex_llm ''Q'' (Some ex_store) None 5 ex_world)
     = Inr \<lparr>answer = ''Total sales are 3.'', document_metadata = [2, 3],
            raw_answer = ''Total sales are 3.'', retrieved_count = Some 2, error = None\<rparr>
   \<and> metadata ex_doc1 = Some 0
   \<and> snapshot 2 (objs (snd (qa_search ex_llm ''Q'' (Some ex_store) None 5 ex_world))) (PRef 0)
       = PDict [(''type'', PStr ''overall''),
                (''raw_data'', PDict [(''total_records'', PInt 3)])]
   \<and> snapshot 2
         (objs (nested_setitem 2 ''raw_data'' ''total_records'' (PInt 0)
                  (snd (qa_search ex_llm ''Q'' (Some ex_store) None 5 ex_world))))
         (PRef 0)
       = PDict [(''type'', PStr ''overall''),
                (''raw_data'', PDict [(''total_records'', PInt 0)])]"
proof -
  let ?w = "snd (qa_search ex_llm ''Q'' (Some ex_store) None 5 ex_world)"
  have o0: "objs ?w 0 = [(''type'', PStr ''overall''), (''raw_data'', PRef 1)]"
    and o1: "objs ?w 1 = [(''total_records'', PInt 3)]"
    and o2: "objs ?w 2 = [(''type'', PStr ''overall''), (''raw_data'', PRef 1)]"
    unfolding ex_objs_after by (simp_all add: ex_world_def)
  have two: "snapshot 2 h x = snapshot (Suc (Suc 0)) h x" for h x
    by (simp add: numeral_2_eq_2)
  have before: "snapshot 2 (objs ?w) (PRef 0)
       = PDict [(''type'', PStr ''overall''),
                (''raw_data'', PDict [(''total_records'', PInt 3)])]"
    unfolding two using o0 o1 by simp
  have mutated: "objs (nested_setitem 2 ''raw_data'' ''total_records'' (PInt 0) ?w)
                   = (objs ?w)(1 := [(''total_records'', PInt 0)])"
    using o1 o2 by (simp add: nested_setitem_def dict_setitem_def)
  have after: "snapshot 2 (objs (nested_setitem 2 ''raw_data'' ''total_records'' (PInt 0) ?w))
                 (PRef 0)
       = PDict [(''type'', PStr ''overall''),
                (''raw_data'', PDict [(''total_records'', PInt 0)])]"
    unfolding mutated two using o0 by simp
  show ?thesis
    using ex_success before after by (simp add: ex_doc1_def)
qed

text \<open>
  Claim C5, amended. The metadata returned for a retrieved document is a new dict with the
  items of the stored document's metadata, and the similarity score under
  \<^verbatim>\<open>similarity_score\<close> when the document carries one (\<open>copied_items\<close>). It is a shallow
  copy: the new dict is a different object from every dict that existed before the call,
  the call leaves all of those as they were, and setting or deleting a key of the returned
  entry leaves them as they were too. The values, the nested \<^verbatim>\<open>raw_data\<close> dict among
  them, are shared with the stored document. The stored metadata dicts are dicts that exist
  when the call starts.
\<close>

theorem returned_metadata_is_shallow_copy:
  assumes run: "qa_search llm query (Some vs) history k w = (Inr r, w')"
    and ok: "error r = None"
    and docs: "vs k query = Inr docs"
    and stored: "\<forall>d \<in> set docs. \<forall>a. metadata d = Some a \<longrightarrow> a < next_addr w"
    and i: "i < length docs"
    and b: "b < next_addr w"
  shows "length (document_metadata r) = length docs
       \<and> objs w' (document_metadata r ! i) = copied_items (objs w) (docs ! i)
       \<and> document_metadata r ! i \<noteq> b
       \<and> objs w' b = objs w b
       \<and> objs (dict_setitem (document_metadata r ! i) key v w') b = objs w b
       \<and> objs (dict_delitem (document_metadata r ! i) key w') b = objs w b"
proof -
  let ?w1 = "w\<lparr>trace := trace w @ [Retrieve query k]\<rparr>"
  from run ok docs obtain ans metas w2 where
    ex: "extract_metadata docs [] ?w1 = (metas, w2)"
    and r: "r = \<lparr>answer = ans, document_metadata = metas, raw_answer = ans,
          retrieved_count = Some (int (length docs)), error = None\<rparr>"
    and w': "w' = w2\<lparr>trace := trace w2 @ [Retrieve query k,
                                     Generate (chain_prompt query docs history)]\<rparr>"
    by (rule qa_search_success_cases)
  have stored1: "\<forall>d \<in> set docs. \<forall>a. metadata d = Some a \<longrightarrow> a < next_addr ?w1"
    using stored by simp
  note inv = extract_metadata_inv [OF ex stored1]
  have metas: "metas = [next_addr w ..< next_addr w + length docs]"
    using inv by simp
  have entry: "metas ! i = next_addr w + i"
    using metas i by simp
  have copy: "objs w2 (next_addr w + i) = copied_items (objs w) (docs ! i)"
    using inv i by simp
  have old: "objs w2 b = objs w b"
    using inv b by simp
  have fresh: "metas ! i \<noteq> b"
    using entry b by simp
  show ?thesis
    using r w' metas entry copy old fresh
    by (simp add: dict_setitem_def dict_delitem_def)
qed

theorem returned_metadata_is_shallow_copy_witness:
  "objs (snd (qa_search ex_llm ''Q'' (Some ex_store) None 5 ex_world)) 2
     = [(''type'', PStr ''overall''), (''raw_data'', PRef 1)]
   \<and> objs (dict_setitem 2 ''type'' (PStr ''changed'')
             (snd (qa_search ex_llm ''Q'' (Some ex_store) None 5 ex_world))) 0
     = [(''type'', PStr ''overall''), (''raw_data'', PRef 1)]
   \<and> objs (dict_delitem 2 ''type''
             (snd (qa_search ex_llm ''Q'' (Some ex_store) None 5 ex_world))) 0
     = [(''type'', PStr ''overall''), (''raw_data'', PRef 1)]"
proof -
  let ?r = "\<lparr>answer = ''Total sales are 3.'', document_metadata = [2::nat, 3],
            raw_answer = ''Total sales are 3.'', retrieved_count = Some 2, error = None\<rparr>"
  let ?w = "snd (qa_search ex_llm ''Q'' (Some ex_store) None 5 ex_world)"
  have run: "qa_search ex_llm ''Q'' (Some ex_store) None 5 ex_world = (Inr ?r, ?w)"
    using ex_success by (simp add: prod_eq_iff)
  have ok: "error ?r = None" by simp
  have stored: "\<forall>d \<in> set [ex_doc1, ex_doc2]. \<forall>a. metadata d = Some a \<longrightarrow> a < next_addr ex_world"
    by (simp add: ex_doc1_def ex_doc2_def ex_world_def)
  have i: "(0::nat) < length [ex_doc1, ex_doc2]" by simp
  have b: "(0::nat) < next_addr ex_world" by (simp add: ex_world_def)
  show ?thesis
    using returned_metadata_is_shallow_copy [OF run ok ex_store_all stored i b,
        of "''type''" "PStr ''changed''"]
    by (simp add: copied_items_def ex_doc1_def ex_world_def)
qed

section \<open>Facts about the query processing\<close>

lemma process_query_no_store:
  assumes "vectorstore st = None" and "q \<noteq> ''''"
  shows "process_query llm (set_query q st) w =
           (None,
            st\<lparr>last_query := q, should_process_query := False,
               messages := messages st @ [\<lparr>role = ''user'', content = q, msg_metadata = None\<rparr>]\<rparr>,
            w\<lparr>trace := trace w
                 @ [StError ''Knowledge base not initialized. Please try again.'']\<rparr>)"
  using assms by (simp add: process_query_def set_query_def Let_def)

lemma ask_all_no_store:
  assumes "vectorstore st = None" and "\<forall>q \<in> set qs. q \<noteq> ''''"
  shows "fst (ask_all llm qs st w) = None
       \<and> map content (messages (fst (snd (ask_all llm qs st w)))) = map content (messages st) @ qs"
  using assms
proof (induction qs arbitrary: st w)
  case Nil
  show ?case by simp
next
  case (Cons q qs)
  let ?st = "st\<lparr>last_query := q, should_process_query := False,
               messages := messages st @ [\<lparr>role = ''user'', content = q, msg_metadata = None\<rparr>]\<rparr>"
  let ?w = "w\<lparr>trace := trace w
                 @ [StError ''Knowledge base not initialized. Please try again.'']\<rparr>"
  have step: "process_query llm (set_query q st) w = (None, ?st, ?w)"
    using Cons.prems by (simp add: process_query_no_store)
  have "vectorstore ?st = None" using Cons.prems by simp
  moreover have "\<forall>q \<in> set qs. q \<noteq> ''''" using Cons.prems by simp
  ultimately have ih: "fst (ask_all llm qs ?st ?w) = None
       \<and> map content (messages (fst (snd (ask_all llm qs ?st ?w))))
           = map content (messages ?st) @ qs"
    by (rule Cons.IH)
  show ?case using step ih by simp
qed

lemma process_query_generation_down:
  assumes store: "vectorstore st = Some vs"
    and q: "q \<noteq> ''''"
    and docs: "vs 6 q = Inr docs"
    and down: "\<And>p. llm p = Inl (Exc cls cause)"
  shows "fst (process_query llm (set_query q st) w) = None
       \<and> fst (snd (process_query llm (set_query q st) w))
           = st\<lparr>last_query := q, should_process_query := False,
                 messages := messages st
                   @ [\<lparr>role = ''user'', content = q, msg_metadata = None\<rparr>]\<rparr>"
proof -
  let ?h = "format_chat_history (messages st) 10"
  have "fst (qa_search llm q (Some vs) (Some ?h) 6 w)
           = Inr \<lparr>answer = ''Error querying the model: '' @ cause,
                  document_metadata = [],
                  raw_answer = ''Error querying the model: '' @ cause,
                  retrieved_count = None,
                  error = Some cause\<rparr>"
    using qa_search_caught [of vs 6 q cls cause llm "Some ?h" w] docs down by blast
  then obtain w1 where "qa_search llm q (Some vs) (Some ?h) 6 w
           = (Inr \<lparr>answer = ''Error querying the model: '' @ cause,
                  document_metadata = [],
                  raw_answer = ''Error querying the model: '' @ cause,
                  retrieved_count = None,
                  error = Some cause\<rparr>, w1)"
    by (cases "qa_search llm q (Some vs) (Some ?h) 6 w") simp
  then show ?thesis
    using store q
    by (simp add: process_query_def process_query_try_def set_query_def Let_def)
qed

lemma ask_all_generation_down:
  assumes "vectorstore st = Some vs" and "\<forall>q \<in> set qs. q \<noteq> ''''"
    and docs: "\<And>q. \<exists>docs. vs 6 q = Inr docs"
    and down: "\<And>p. llm p = Inl (Exc cls cause)"
  shows "fst (ask_all llm qs st w) = None
       \<and> map content (messages (fst (snd (ask_all llm qs st w)))) = map content (messages st) @ qs"
  using assms(1,2)
proof (induction qs arbitrary: st w)
  case Nil
  show ?case by simp
next
  case (Cons q qs)
  let ?st = "st\<lparr>last_query := q, should_process_query := False,
               messages := messages st @ [\<lparr>role = ''user'', content = q, msg_metadata = None\<rparr>]\<rparr>"
  obtain ds where ds: "vs 6 q = Inr ds" using docs by blast
  have q: "q \<noteq> ''''" using Cons.prems by simp
  note step = process_query_generation_down [of st vs q ds llm cls cause w, OF Cons.prems(1) q ds down]
  obtain w' where run: "process_query llm (set_query q st) w = (None, ?st, w')"
    using step by (cases "process_query llm (set_query q st) w") auto
  have "vectorstore ?st = Some vs" using Cons.prems by simp
  moreover have "\<forall>q \<in> set qs. q \<noteq> ''''" using Cons.prems by simp
  ultimately have ih: "fst (ask_all llm qs ?st w') = None
       \<and> map content (messages (fst (snd (ask_all llm qs ?st w'))))
           = map content (messages ?st) @ qs"
    by (rule Cons.IH)
  show ?case using run ih by simp
qed

lemma clear_chat_empties: "messages (clear_chat st) = []"
  by (simp add: clear_chat_def)

lemma process_query_answered:
  assumes store: "vectorstore st = Some vs"
    and q: "q \<noteq> ''''"
    and docs: "vs 6 q = Inr docs"
    and gen: "llm (chain_prompt q docs (Some (format_chat_history (messages st) 10))) = Inr ans"
  shows "messages (fst (snd (process_query llm (set_query q st) w)))
           = drop (length (messages st) + 2 - 10)
               (messages st
                @ [\<lparr>role = ''user'', content = q, msg_metadata = None\<rparr>,
                   \<lparr>role = ''assistant'', content = ans,
                    msg_metadata = Some [next_addr w ..< next_addr w + length docs]\<rparr>])"
proof -
  let ?h = "format_chat_history (messages st) 10"
  let ?r = "\<lparr>answer = ans,
                document_metadata = [next_addr w ..< next_addr w + length docs],
                raw_answer = ans,
                retrieved_count = Some (int (length docs)), error = None\<rparr>"
  have "fst (qa_search llm q (Some vs) (Some ?h) 6 w) = Inr ?r"
    using qa_search_success_result(1) [of vs 6 q docs llm "Some ?h" ans w] docs gen by simp
  then obtain w1 where run: "qa_search llm q (Some vs) (Some ?h) 6 w = (Inr ?r, w1)"
    by (cases "qa_search llm q (Some vs) (Some ?h) 6 w") simp
  have slice: "py_slice_from xs (- 10) = drop (length xs - 10) xs" for xs :: "turn list"
    using py_slice_from_last [of 10 xs] by simp
  show ?thesis
    using store q run
    by (simp add: process_query_def process_query_try_def set_query_def Let_def slice)
qed

section \<open>C7: the window of the conversation state\<close>

text \<open>
  Claim C7 says that after each append the conversation state is trimmed to the 10 most
  recent turns. The trim of app.py (lines 195-198) follows the append of the assistant's
  turn only; the user's turn is appended before (line 158), and when no answer follows
  nothing trims. Eleven questions asked from the initial session leave eleven turns in the
  state, both when the session has no vector store and when the store answers and the model
  is down (\<^verbatim>\<open>qa_search\<close> then returns its error dict, and line 177 raises KeyError on
  \<^verbatim>\<open>result['retrieved_count']\<close>). After an answered query the state is the last 10 turns
  (\<open>process_query_answered\<close>), and \<^verbatim>\<open>clear_chat\<close> empties it (\<open>clear_chat_empties\<close>).
\<close>

theorem failed_queries_are_not_trimmed:
  "length (messages (fst (snd
      (ask_all ex_llm (replicate 11 ''Q'') (initial_session None) ex_world)))) = 11
   \<and> length (messages (fst (snd
      (ask_all ex_llm_down (replicate 11 ''Q'') (initial_session (Some ex_store)) ex_world)))) = 11"
proof -
  have qs: "\<forall>q \<in> set (replicate 11 ''Q''). q \<noteq> ''''" by simp
  have "map content (messages (fst (snd
      (ask_all ex_llm (replicate 11 ''Q'') (initial_session None) ex_world))))
      = map content (messages (initial_session None)) @ replicate 11 ''Q''"
    using ask_all_no_store [of "initial_session None" "replicate 11 ''Q''" ex_llm ex_world] qs
    by (simp add: initial_session_def)
  then have "length (map content (messages (fst (snd
      (ask_all ex_llm (replicate 11 ''Q'') (initial_session None) ex_world)))))
      = length (map content (messages (initial_session None)) @ replicate 11 ''Q'')"
    by (rule arg_cong)
  then have a: "length (messages (fst (snd
      (ask_all ex_llm (replicate 11 ''Q'') (initial_session None) ex_world)))) = 11"
    by (simp add: initial_session_def)
  have docs: "\<And>q. \<exists>docs. ex_store 6 q = Inr docs"
    by (simp add: ex_store_def spec_vectorstore_def)
  have down: "\<And>p. ex_llm_down p = Inl (Exc ''APIError'' ''service unavailable'')"
    by (simp add: ex_llm_down_def)
  have "map content (messages (fst (snd
      (ask_all ex_llm_down (replicate 11 ''Q'') (initial_session (Some ex_store)) ex_world))))
      = map content (messages (initial_session (Some ex_store))) @ replicate 11 ''Q''"
    using ask_all_generation_down [of "initial_session (Some ex_store)" ex_store
        "replicate 11 ''Q''" ex_llm_down "''APIError''" "''service unavailable''" ex_world]
      qs docs down
    by (simp add: initial_session_def)
  then have "length (map content (messages (fst (snd
      (ask_all ex_llm_down (replicate 11 ''Q'') (initial_session (Some ex_store)) ex_world)))))
      = length (map content (messages (initial_session (Some ex_store))) @ replicate 11 ''Q'')"
    by (rule arg_cong)
  then have b: "length (messages (fst (snd
      (ask_all ex_llm_down (replicate 11 ''Q'') (initial_session (Some ex_store)) ex_world)))) = 11"
    by (simp add: initial_session_def)
  show ?thesis using a b by simp
qed

section \<open>Facts about the age groups\<close>

lemma age_group_bins:
  "cut a [17, 25, 35, 50, 70] [''18-25'', ''26-35'', ''36-50'', ''51-70'']
     = (if 18 \<le> a \<and> a \<le> 25 then Some ''18-25''
        else if 26 \<le> a \<and> a \<le> 35 then Some ''26-35''
        else if 36 \<le> a \<and> a \<le> 50 then Some ''36-50''
        else if 51 \<le> a \<and> a \<le> 70 then Some ''51-70''
        else None)"
  by simp

lemma set_unique: "set (unique xs) = set xs"
  by (induction xs rule: unique.induct) auto

lemma age_group_documents_missing:
  assumes "None \<in> set groups"
    and "\<forall>label. Some label \<in> set groups \<longrightarrow> (\<exists>r \<in> set df. Age_Group r = Some label)"
  shows "age_group_documents df groups documents
           = Inl (Exc ''ValueError'' ''NaTType does not support strftime'')"
  using assms
proof (induction groups arbitrary: documents)
  case Nil
  then show ?case by simp
next
  case (Cons g groups)
  show ?case
  proof (cases g)
    case None
    then show ?thesis
      by (simp add: category_eq_def create_summary_dict_def)
  next
    case (Some label)
    then obtain r where r: "r \<in> set df" "Age_Group r = Some label"
      using Cons.prems(2) by auto
    then have "r \<in> set (filter (\<lambda>r. category_eq (Age_Group r) g) df)"
      using Some by (simp add: category_eq_def)
    then obtain c cs where chunk: "filter (\<lambda>r. category_eq (Age_Group r) g) df = c # cs"
      by (cases "filter (\<lambda>r. category_eq (Age_Group r) g) df") auto
    have rest: "None \<in> set groups" using Cons.prems(1) Some by simp
    have wit: "\<forall>label. Some label \<in> set groups \<longrightarrow> (\<exists>r \<in> set df. Age_Group r = Some label)"
      using Cons.prems(2) by simp
    show ?thesis
      using Cons.IH [OF rest wit] chunk
      by (simp add: create_summary_dict_def)
  qed
qed

lemma main_documents_out_of_range:
  assumes "r \<in> set csv" and "Customer_Age r < 18 \<or> 70 < Customer_Age r"
    and "\<forall>x \<in> set csv. - (2 ^ 63) \<le> Customer_Age x \<and> Customer_Age x < 2 ^ 63"
  shows "main_documents csv = Inl (Exc ''ValueError'' ''NaTType does not support strftime'')"
proof -
  let ?df = "load_data csv"
  have "Age_Group (\<lparr>Date = Date r, Customer_Age = Customer_Age r,
                Age_Group = cut (Customer_Age r) [17, 25, 35, 50, 70]
                              [''18-25'', ''26-35'', ''36-50'', ''51-70'']\<rparr>) = None"
    using assms(2) by auto
  then have "None \<in> set (map Age_Group ?df)"
    using assms(1) by (force simp: load_data_def image_iff)
  then have missing: "None \<in> set (unique (map Age_Group ?df))"
    by (simp add: set_unique)
  have wit: "\<forall>label. Some label \<in> set (unique (map Age_Group ?df))
                \<longrightarrow> (\<exists>r \<in> set ?df. Age_Group r = Some label)"
    by (auto simp: set_unique)
  show ?thesis
    using age_group_documents_missing [OF missing wit, of "[]"]
    by (simp add: main_documents_def)
qed

section \<open>C8: age groups and the overall document\<close>

text \<open>
  Claim C8 says that a record with an age outside 18-70 gets no age group, is left out of
  the age-group documents and is still part of the overall aggregation. The bins are as
  claimed (\<open>age_group_bins\<close>), and the record aged 80 gets no group. But the loop over
  \<^verbatim>\<open>sales_df["Age_Group"].unique()\<close> then meets the missing value, selects an empty chunk
  for it, and \<^verbatim>\<open>create_summary_dict\<close> raises on the empty chunk: for the table of a
  record aged 30 and a record aged 80 the script stops with ValueError before the overall
  document is built, where the table of the record aged 30 alone gives both documents.
\<close>

theorem out_of_range_age_aborts_aggregation:
  "load_data [\<lparr>Date = 5, Customer_Age = 30\<rparr>, \<lparr>Date = 7, Customer_Age = 80\<rparr>]
     = [\<lparr>Date = 5, Customer_Age = 30, Age_Group = Some ''26-35''\<rparr>,
        \<lparr>Date = 7, Customer_Age = 80, Age_Group = None\<rparr>]
   \<and> main_documents [\<lparr>Date = 5, Customer_Age = 30\<rparr>, \<lparr>Date = 7, Customer_Age = 80\<rparr>]
       = Inl (Exc ''ValueError'' ''NaTType does not support strftime'')
   \<and> main_documents [\<lparr>Date = 5, Customer_Age = 30\<rparr>]
       = Inr [\<lparr>doc_id = ''age_group_26-35'', doc_type = ''demographic'',
               raw_data = \<lparr>level = ''age_group'', level_value = ''26-35'',
                            total_records = 1, date_range = (5, 5)\<rparr>\<rparr>,
              \<lparr>doc_id = ''overall_summary'', doc_type = ''overall'',
               raw_data = \<lparr>level = ''overall'', level_value = ''all_data'',
                            total_records = 1, date_range = (5, 5)\<rparr>\<rparr>]"
  by (simp add: main_documents_def load_data_def category_eq_def create_summary_dict_def
        str_age_group_def)

end
